theory Spec2Isabelle
  imports Complex_Main "HOL-Library.Log_Nat"
begin

section \<open>JavaScript values and the platform\<close>

text \<open>
  The storage helpers of \<^verbatim>\<open>src/index.js\<close> (\<^verbatim>\<open>safeJsonParse\<close>,
  \<^verbatim>\<open>setStorageWithExpiry\<close>, \<^verbatim>\<open>getStorageWithExpiry\<close>) and the
  \<^verbatim>\<open>CacheManager\<close> class of the README are embedded below.

  A JavaScript number is a double: \<^verbatim>\<open>NaN\<close>, an infinity, or a finite value, kept
  as the rational it is. Negative zero is not told apart from zero: the two compare
  equal, are both falsy and have the same JSON text.
\<close>

datatype jsnum = NaN | PInf | NInf | Fin rat

text \<open>
  A JavaScript value is a tree: \<^verbatim>\<open>undefined\<close>, \<^verbatim>\<open>null\<close>, a boolean, a
  number, a string, an array or a plain object (its own properties in the order in
  which they are enumerated).
\<close>

datatype jsval =
    JUndefined
  | JNull
  | JBool bool
  | JNum jsnum
  | JStr string
  | JArr "jsval list"
  | JObj "(string \<times> jsval) list"

text \<open>
  What a call can throw, or a promise can reject with: the built-in errors the code can
  meet, and \<open>Reason v\<close> for a value thrown or rejected by caller-supplied code.
\<close>

datatype js_error =
  TypeError | SyntaxError | QuotaExceededError | SecurityError | Reason jsval

text \<open>
  The built-ins that the code calls but does not define are parameters of the model:
  \<^item> \<open>JSON_parse\<close>: \<^verbatim>\<open>JSON.parse\<close>, \<open>Inl\<close> when it throws;
  \<^item> \<open>JSON_stringify\<close>: \<^verbatim>\<open>JSON.stringify\<close> on an object literal, whose result
    is a string (\<open>jsval\<close> has no cyclic object and no BigInt, the values it throws on);
  \<^item> \<open>coerce\<close>: the number that a string, an array or an object converts to
    (\<^verbatim>\<open>ToPrimitive\<close> and \<^verbatim>\<open>StringToNumber\<close>);
  \<^item> \<open>round_double\<close>: the double that an exact result is rounded to, an infinity when
    it overflows; every arithmetic operation on finite numbers is the exact operation
    followed by this rounding;
  \<^item> \<open>quota_ok\<close>: whether the user agent can store a value under a key, given what
    \<^verbatim>\<open>localStorage\<close> holds (\<^verbatim>\<open>setItem\<close> throws a QuotaExceededError when it cannot);
  \<^item> \<open>remove_error\<close>: what the statement \<^verbatim>\<open>localStorage.removeItem(key)\<close>
    throws, if anything. The code runs against whatever \<^verbatim>\<open>localStorage\<close> is there:
    the getter throws a SecurityError when the user agent denies the page its storage,
    and a replacement of the object can throw what it likes.
\<close>

record platform =
  JSON_parse :: "string \<Rightarrow> js_error + jsval"
  JSON_stringify :: "jsval \<Rightarrow> string"
  coerce :: "jsval \<Rightarrow> js_error + jsnum"
  round_double :: "rat \<Rightarrow> jsnum"
  quota_ok :: "(string \<rightharpoonup> string) \<Rightarrow> string \<Rightarrow> string \<Rightarrow> bool"
  remove_error :: "(string \<rightharpoonup> string) \<Rightarrow> string \<Rightarrow> js_error option"

text \<open>
  The state the code reads and writes: the items of \<^verbatim>\<open>localStorage\<close> and the
  clock that \<^verbatim>\<open>new Date().getTime()\<close> reads, a whole number of milliseconds.
\<close>

record world =
  storage :: "string \<rightharpoonup> string"
  clock :: int

subsection \<open>Language semantics used by the code\<close>

text \<open>
  \<^verbatim>\<open>x * y\<close> and \<^verbatim>\<open>x + y\<close> on numbers: the exact result rounded when both are
  finite, and the rules of IEEE 754 for \<^verbatim>\<open>NaN\<close> and the infinities otherwise.
\<close>

fun negative :: "jsnum \<Rightarrow> bool" where
  "negative NInf = True"
| "negative (Fin a) = (a < 0)"
| "negative x = False"

fun js_mul :: "platform \<Rightarrow> jsnum \<Rightarrow> jsnum \<Rightarrow> jsnum" where
  "js_mul P (Fin a) (Fin b) = round_double P (a * b)"
| "js_mul P x y =
     (if x = NaN \<or> y = NaN \<or> x = Fin 0 \<or> y = Fin 0 then NaN
      else if negative x = negative y then PInf
      else NInf)"

fun js_add :: "platform \<Rightarrow> jsnum \<Rightarrow> jsnum \<Rightarrow> jsnum" where
  "js_add P (Fin a) (Fin b) = round_double P (a + b)"
| "js_add P x y =
     (if x = NaN \<or> y = NaN then NaN
      else if (x = PInf \<and> y = NInf) \<or> (x = NInf \<and> y = PInf) then NaN
      else if x = PInf \<or> y = PInf then PInf
      else NInf)"

text \<open>
  \<^verbatim>\<open>item.p\<close> for a property name \<open>p\<close> that no built-in prototype defines
  (\<^verbatim>\<open>expiry\<close> and \<^verbatim>\<open>value\<close> here): a TypeError on \<^verbatim>\<open>undefined\<close> and
  \<^verbatim>\<open>null\<close>, the own property of an object, \<^verbatim>\<open>undefined\<close> otherwise.
\<close>

fun get_prop :: "jsval \<Rightarrow> string \<Rightarrow> js_error + jsval" where
  "get_prop JUndefined p = Inl TypeError"
| "get_prop JNull p = Inl TypeError"
| "get_prop (JObj kvs) p = Inr (case map_of kvs p of Some v \<Rightarrow> v | None \<Rightarrow> JUndefined)"
| "get_prop v p = Inr JUndefined"

fun ToNumber :: "platform \<Rightarrow> jsval \<Rightarrow> js_error + jsnum" where
  "ToNumber P JUndefined = Inr NaN"
| "ToNumber P JNull = Inr (Fin 0)"
| "ToNumber P (JBool b) = Inr (Fin (if b then 1 else 0))"
| "ToNumber P (JNum n) = Inr n"
| "ToNumber P v = coerce P v"

text \<open>
  \<^verbatim>\<open>n > v\<close> for the whole number \<open>n\<close> that the clock reads: false when \<open>v\<close>
  converts to \<^verbatim>\<open>NaN\<close>.
\<close>

definition js_gt :: "platform \<Rightarrow> int \<Rightarrow> jsval \<Rightarrow> js_error + bool" where
  "js_gt P n v =
     (case ToNumber P v of
        Inl e \<Rightarrow> Inl e
      | Inr NaN \<Rightarrow> Inr False
      | Inr PInf \<Rightarrow> Inr False
      | Inr NInf \<Rightarrow> Inr True
      | Inr (Fin m) \<Rightarrow> Inr (of_int n > m))"

text \<open>The truthiness that \<^verbatim>\<open>if (v)\<close> tests.\<close>

fun ToBoolean :: "jsval \<Rightarrow> bool" where
  "ToBoolean JUndefined = False"
| "ToBoolean JNull = False"
| "ToBoolean (JBool b) = b"
| "ToBoolean (JNum n) = (n \<noteq> NaN \<and> n \<noteq> Fin 0)"
| "ToBoolean (JStr s) = (s \<noteq> [])"
| "ToBoolean (JArr xs) = True"
| "ToBoolean (JObj kvs) = True"

subsection \<open>localStorage\<close>

text \<open>
  A read is served from the items. A write that the user agent has no room for throws
  a QuotaExceededError, and a removal can throw too; both then leave the items as they
  were.
\<close>

definition getItem :: "world \<Rightarrow> string \<Rightarrow> string option" where
  "getItem w key = storage w key"

definition setItem :: "platform \<Rightarrow> string \<Rightarrow> string \<Rightarrow> world \<Rightarrow> js_error + world" where
  "setItem P key s w =
     (if quota_ok P (storage w) key s
      then Inr (w\<lparr>storage := (storage w)(key \<mapsto> s)\<rparr>)
      else Inl QuotaExceededError)"

definition removeItem :: "platform \<Rightarrow> string \<Rightarrow> world \<Rightarrow> js_error + world" where
  "removeItem P key w =
     (case remove_error P (storage w) key of
        None \<Rightarrow> Inr (w\<lparr>storage := (storage w)(key := None)\<rparr>)
      | Some e \<Rightarrow> Inl e)"

text \<open>The world once the item of a key is removed.\<close>

definition removed :: "string \<Rightarrow> world \<Rightarrow> world" where
  "removed key w = w\<lparr>storage := (storage w)(key := None)\<rparr>"

section \<open>The storage helpers of index.js\<close>

text \<open>
  \<^verbatim>\<open>safeJsonParse(str, fallback = {})\<close>: the \<^verbatim>\<open>catch\<close> takes every error of
  \<^verbatim>\<open>JSON.parse\<close>; the default applies when the argument is \<^verbatim>\<open>undefined\<close>.
\<close>

definition safeJsonParse :: "platform \<Rightarrow> string \<Rightarrow> jsval \<Rightarrow> js_error + jsval" where
  "safeJsonParse P str fallback =
     (case JSON_parse P str of
        Inr v \<Rightarrow> Inr v
      | Inl e \<Rightarrow> Inr (if fallback = JUndefined then JObj [] else fallback))"

text \<open>
  \<^verbatim>\<open>setStorageWithExpiry(key, value, hours = 24)\<close>; \<open>hours = None\<close> is the omitted
  argument, which \<open>hours_arg\<close> replaces by the default. \<open>expiry_of\<close> is
  \<^verbatim>\<open>now.getTime() + hours * 60 * 60 * 1000\<close>, each operation rounded as the engine
  rounds it. The result of the call is the world after it, or what the call throws.
\<close>

definition hours_arg :: "jsnum option \<Rightarrow> jsnum" where
  "hours_arg hours = (case hours of None \<Rightarrow> Fin 24 | Some h \<Rightarrow> h)"

definition expiry_of :: "platform \<Rightarrow> world \<Rightarrow> jsnum option \<Rightarrow> jsnum" where
  "expiry_of P w hours =
     js_add P (Fin (of_int (clock w)))
       (js_mul P (js_mul P (js_mul P (hours_arg hours) (Fin 60)) (Fin 60)) (Fin 1000))"

text \<open>The object literal \<^verbatim>\<open>{ value: value, expiry: ... }\<close>.\<close>

definition make_item :: "jsval \<Rightarrow> jsnum \<Rightarrow> jsval" where
  "make_item v e = JObj [(''value'', v), (''expiry'', JNum e)]"

definition setStorageWithExpiry ::
  "platform \<Rightarrow> string \<Rightarrow> jsval \<Rightarrow> jsnum option \<Rightarrow> world \<Rightarrow> js_error + world" where
  "setStorageWithExpiry P key v hours w =
     (let item = make_item v (expiry_of P w hours)
      in setItem P key (JSON_stringify P item) w)"

text \<open>
  \<^verbatim>\<open>getStorageWithExpiry(key)\<close>: the value returned or the error thrown, and the
  world after the call.
\<close>

definition getStorageWithExpiry ::
  "platform \<Rightarrow> string \<Rightarrow> world \<Rightarrow> (js_error + jsval) \<times> world" where
  "getStorageWithExpiry P key w =
     (case getItem w key of
        None \<Rightarrow> (Inr JNull, w)
      | Some itemStr \<Rightarrow>
          if itemStr = [] then (Inr JNull, w)
          else
            (case safeJsonParse P itemStr JUndefined of
               Inl e \<Rightarrow> (Inl e, w)
             | Inr item \<Rightarrow>
                 (case get_prop item ''expiry'' of
                    Inl e \<Rightarrow> (Inl e, w)
                  | Inr ex \<Rightarrow>
                      (case js_gt P (clock w) ex of
                         Inl e \<Rightarrow> (Inl e, w)
                       | Inr True \<Rightarrow>
                           (case removeItem P key w of
                              Inl e \<Rightarrow> (Inl e, w)
                            | Inr w' \<Rightarrow> (Inr JNull, w'))
                       | Inr False \<Rightarrow> (get_prop item ''value'', w)))))"

section \<open>CacheManager\<close>

text \<open>
  A settled call: it threw, or returned a promise that fulfilled or rejected.
  \<^verbatim>\<open>fetchFunction\<close> is caller-supplied code: it settles some way and leaves the world
  as it likes (the clock has moved on when its promise settles).
\<close>

datatype settled = Throws js_error | Fulfilled jsval | Rejected js_error

type_synonym fetcher = "world \<Rightarrow> settled \<times> world"

definition CacheManager_set ::
  "platform \<Rightarrow> string \<Rightarrow> jsval \<Rightarrow> jsnum option \<Rightarrow> world \<Rightarrow> js_error + world" where
  "CacheManager_set P key data hours w =
     setStorageWithExpiry P key data (Some (hours_arg hours)) w"

definition CacheManager_get ::
  "platform \<Rightarrow> string \<Rightarrow> world \<Rightarrow> (js_error + jsval) \<times> world" where
  "CacheManager_get P key w = getStorageWithExpiry P key w"

text \<open>
  \<^verbatim>\<open>CacheManager.getOrFetch(key, fetchFunction, hours = 24)\<close>: how the call settles,
  how many times it called \<^verbatim>\<open>fetchFunction\<close>, and the world after it.
\<close>

definition getOrFetch ::
  "platform \<Rightarrow> string \<Rightarrow> fetcher \<Rightarrow> jsnum option \<Rightarrow> world \<Rightarrow> settled \<times> nat \<times> world" where
  "getOrFetch P key fetchFunction hours w =
     (case CacheManager_get P key w of
        (Inl e, w1) \<Rightarrow> (Throws e, 0, w1)
      | (Inr cached, w1) \<Rightarrow>
          if ToBoolean cached then (Fulfilled cached, 0, w1)
          else
            (case fetchFunction w1 of
               (Throws e, w2) \<Rightarrow> (Throws e, 1, w2)
             | (Rejected e, w2) \<Rightarrow> (Rejected e, 1, w2)
             | (Fulfilled data, w2) \<Rightarrow>
                 (case CacheManager_set P key data (Some (hours_arg hours)) w2 of
                    Inl e \<Rightarrow> (Rejected e, 1, w2)
                  | Inr w3 \<Rightarrow> (Fulfilled data, 1, w3))))"

section \<open>What JSON keeps\<close>

text \<open>
  \<open>round_trips\<close>: what \<^verbatim>\<open>JSON.stringify\<close> prints for \<open>x\<close> is a non-empty text
  that \<^verbatim>\<open>JSON.parse\<close> reads back as \<open>x\<close>. An engine does this for every value that
  JSON represents; it does not for \<^verbatim>\<open>undefined\<close>, which it leaves out, nor for
  \<^verbatim>\<open>NaN\<close> and the infinities, which it prints as \<^verbatim>\<open>null\<close>.

  \<open>keeps_expiry\<close> asks less: the text is non-empty and reads back as a value with the
  \<^verbatim>\<open>expiry\<close> property of \<open>x\<close>. An engine does this for every item whose expiry is
  a finite number, whatever its value is.
\<close>

definition round_trips :: "platform \<Rightarrow> jsval \<Rightarrow> bool" where
  "round_trips P x \<longleftrightarrow>
     JSON_stringify P x \<noteq> [] \<and> JSON_parse P (JSON_stringify P x) = Inr x"

definition keeps_expiry :: "platform \<Rightarrow> jsval \<Rightarrow> bool" where
  "keeps_expiry P x \<longleftrightarrow>
     JSON_stringify P x \<noteq> [] \<and>
     (case JSON_parse P (JSON_stringify P x) of
        Inl e \<Rightarrow> False
      | Inr y \<Rightarrow> get_prop y ''expiry'' = get_prop x ''expiry'')"

section \<open>A reference platform\<close>

text \<open>
  A platform to evaluate the code on. Strings are sequences of bytes, the UTF-8 form
  of the text. Rounding is to the nearest double, ties to even. \<^verbatim>\<open>JSON.stringify\<close>
  prints as engines print (compact, properties whose value is \<^verbatim>\<open>undefined\<close> left
  out, \<^verbatim>\<open>undefined\<close> and the numbers that are not finite printed as \<^verbatim>\<open>null\<close>),
  and \<^verbatim>\<open>JSON.parse\<close> reads by recursive descent. The recursion of the parser is
  bounded by the length of the text, which is as deep as a text can nest.
\<close>

subsection \<open>Rounding to a double\<close>

text \<open>
  \<open>ilog2 a\<close> is the binary exponent of \<open>a > 0\<close>. A double has 53 significant bits
  above the exponent \<open>-1022\<close> and a fixed spacing of \<open>2 ^ -1074\<close> below it; a result of
  \<open>2 ^ 1024\<close> or more is an infinity.
\<close>

definition pow2 :: "int \<Rightarrow> rat" where
  "pow2 k = (if 0 \<le> k then 2 ^ nat k else 1 / 2 ^ nat (- k))"

definition ilog2 :: "rat \<Rightarrow> int" where
  "ilog2 a = (if 1 \<le> a then bitlen \<lfloor>a\<rfloor> - 1 else - bitlen (\<lceil>1 / a\<rceil> - 1))"

definition round_half_even :: "rat \<Rightarrow> int" where
  "round_half_even x =
     (let f = \<lfloor>x\<rfloor>; d = x - of_int f
      in if d < 1 / 2 then f
         else if 1 / 2 < d then f + 1
         else if even f then f else f + 1)"

definition ref_round :: "rat \<Rightarrow> jsnum" where
  "ref_round r =
     (let a = \<bar>r\<bar>
      in if a = 0 then Fin 0
         else if 2 ^ 1024 \<le> a then (if 0 < r then PInf else NInf)
         else
           (let q = max (ilog2 a) (- 1022) - 52;
                y = of_int (round_half_even (a / pow2 q)) * pow2 q
            in if 2 ^ 1024 \<le> y then (if 0 < r then PInf else NInf)
               else Fin (if 0 < r then y else - y)))"

subsection \<open>Printing\<close>

definition digit_char :: "nat \<Rightarrow> char" where
  "digit_char d = ''0123456789abcdef'' ! d"

text \<open>The decimal digits of a whole number that is not negative.\<close>

function show_digits :: "int \<Rightarrow> string" where
  "show_digits n =
     (if n < 10 then [digit_char (nat n)]
      else show_digits (n div 10) @ [digit_char (nat (n mod 10))])"
  by pat_completeness auto
termination
  by (relation "measure nat") auto

declare show_digits.simps [simp del]

text \<open>
  The text of a finite number is the shortest string of digits that reads back as the
  number, laid out as \<^verbatim>\<open>Number.prototype.toString\<close> lays it out. \<open>dec_exponent x\<close> is
  the \<open>n\<close> with \<open>10 ^ (n - 1) \<le> x < 10 ^ n\<close>; \<open>shortest\<close> tries 1, 2, ... digits, and
  17 digits tell any two doubles apart.
\<close>

definition pow10 :: "int \<Rightarrow> rat" where
  "pow10 k = (if 0 \<le> k then 10 ^ nat k else 1 / 10 ^ nat (- k))"

fun leading_zeros :: "nat \<Rightarrow> rat \<Rightarrow> nat" where
  "leading_zeros 0 x = 0"
| "leading_zeros (Suc n) x = (if 1 / 10 \<le> x then 0 else Suc (leading_zeros n (10 * x)))"

definition dec_exponent :: "rat \<Rightarrow> int" where
  "dec_exponent x =
     (if 1 \<le> x then int (length (show_digits \<lfloor>x\<rfloor>))
      else - int (leading_zeros 400 x))"

fun shortest :: "nat list \<Rightarrow> rat \<Rightarrow> int \<Rightarrow> int \<times> int" where
  "shortest [] x n = (\<lfloor>x / pow10 (n - 17)\<rfloor>, n)"
| "shortest (k # ks) x n =
     (let scale = pow10 (n - int k);
          t = x / scale;
          lo = \<lfloor>t\<rfloor>;
          hi = lo + 1;
          ok_lo = (ref_round (of_int lo * scale) = Fin x);
          ok_hi = (ref_round (of_int hi * scale) = Fin x);
          d_lo = t - of_int lo;
          d_hi = of_int hi - t
      in if ok_lo \<and> (\<not> ok_hi \<or> d_lo < d_hi \<or> (d_lo = d_hi \<and> even lo)) then (lo, n)
         else if ok_hi then (if hi = 10 ^ k then (10 ^ (k - 1), n + 1) else (hi, n))
         else shortest ks x n)"

definition positive_text :: "rat \<Rightarrow> string" where
  "positive_text x =
     (case shortest [1, 2, 3, 4, 5, 6, 7, 8, 9, 10, 11, 12, 13, 14, 15, 16, 17] x (dec_exponent x) of
        (s, n) \<Rightarrow>
          (let ds = show_digits s; k = int (length ds)
           in if k \<le> n \<and> n \<le> 21 then ds @ replicate (nat (n - k)) CHR ''0''
              else if 0 < n \<and> n \<le> 21 then take (nat n) ds @ CHR ''.'' # drop (nat n) ds
              else if - 6 < n \<and> n \<le> 0 then ''0.'' @ replicate (nat (- n)) CHR ''0'' @ ds
              else
                (let e = n - 1;
                     es = (if e < 0 then CHR ''-'' else CHR ''+'') # show_digits \<bar>e\<bar>
                 in if k = 1 then ds @ CHR ''e'' # es
                    else take 1 ds @ CHR ''.'' # drop 1 ds @ CHR ''e'' # es)))"

definition number_text :: "rat \<Rightarrow> string" where
  "number_text r =
     (if r = 0 then ''0''
      else if r < 0 then CHR ''-'' # positive_text (- r)
      else positive_text r)"

text \<open>
  A string is quoted with the escapes of \<^verbatim>\<open>JSON.stringify\<close>: the quote, the
  backslash, the control characters, and a surrogate that stands alone (the three
  bytes \<open>ED A0..BF 80..BF\<close>).
\<close>

definition hex4 :: "nat \<Rightarrow> string" where
  "hex4 n =
     [digit_char (n div 4096), digit_char (n div 256 mod 16), digit_char (n div 16 mod 16),
      digit_char (n mod 16)]"

definition escape_char :: "char \<Rightarrow> string" where
  "escape_char c =
     (if c = CHR 0x22 then [CHR 0x5C, CHR 0x22]
      else if c = CHR 0x5C then [CHR 0x5C, CHR 0x5C]
      else if c = CHR 0x08 then [CHR 0x5C, CHR ''b'']
      else if c = CHR 0x09 then [CHR 0x5C, CHR ''t'']
      else if c = CHR 0x0A then [CHR 0x5C, CHR ''n'']
      else if c = CHR 0x0C then [CHR 0x5C, CHR ''f'']
      else if c = CHR 0x0D then [CHR 0x5C, CHR ''r'']
      else if of_char c < (32::nat) then CHR 0x5C # CHR ''u'' # hex4 (of_char c)
      else [c])"

fun escape :: "string \<Rightarrow> string" where
  "escape (a # b # c # cs) =
     (if a = CHR 0xED \<and> (160::nat) \<le> of_char b \<and> of_char b < (192::nat)
      then CHR 0x5C # CHR ''u'' #
           hex4 (53248 + (of_char b mod 64) * 64 + of_char c mod 64) @ escape cs
      else escape_char a @ escape (b # c # cs))"
| "escape (a # cs) = escape_char a @ escape cs"
| "escape [] = []"

definition quote :: "string \<Rightarrow> string" where
  "quote s = CHR 0x22 # escape s @ [CHR 0x22]"

fun commas :: "string list \<Rightarrow> string" where
  "commas [] = []"
| "commas [x] = x"
| "commas (x # xs) = x @ CHR '','' # commas xs"

text \<open>
  The own properties of an object are enumerated with the array indices first, in
  ascending order, and the other keys after them in the order of their creation;
  defining a property that exists replaces its value where it stands.
\<close>

definition digit_val :: "char \<Rightarrow> nat option" where
  "digit_val c =
     map_of [(CHR ''0'', 0), (CHR ''1'', 1), (CHR ''2'', 2), (CHR ''3'', 3), (CHR ''4'', 4),
             (CHR ''5'', 5), (CHR ''6'', 6), (CHR ''7'', 7), (CHR ''8'', 8), (CHR ''9'', 9)] c"

fun parse_digits :: "int \<Rightarrow> string \<Rightarrow> int \<times> string" where
  "parse_digits acc [] = (acc, [])"
| "parse_digits acc (c # cs) =
     (case digit_val c of
        None \<Rightarrow> (acc, c # cs)
      | Some d \<Rightarrow> parse_digits (10 * acc + int d) cs)"

definition array_index :: "string \<Rightarrow> int option" where
  "array_index k =
     (case k of
        [] \<Rightarrow> None
      | c # r \<Rightarrow>
          (case digit_val c of
             None \<Rightarrow> None
           | Some d \<Rightarrow>
               if d = 0 then (if r = [] then Some 0 else None)
               else
                 (case parse_digits (int d) r of
                    (n, rest) \<Rightarrow> if rest = [] \<and> n < 4294967295 then Some n else None)))"

fun insert_index :: "(string \<times> jsval) list \<Rightarrow> int \<Rightarrow> string \<Rightarrow> jsval \<Rightarrow> (string \<times> jsval) list" where
  "insert_index [] i k v = [(k, v)]"
| "insert_index (p # ps) i k v =
     (case array_index (fst p) of
        None \<Rightarrow> (k, v) # p # ps
      | Some j \<Rightarrow> if i < j then (k, v) # p # ps else p # insert_index ps i k v)"

fun replace_prop :: "(string \<times> jsval) list \<Rightarrow> string \<Rightarrow> jsval \<Rightarrow> (string \<times> jsval) list" where
  "replace_prop [] k v = []"
| "replace_prop (p # ps) k v = (if fst p = k then (k, v) # ps else p # replace_prop ps k v)"

definition put_prop :: "(string \<times> jsval) list \<Rightarrow> string \<Rightarrow> jsval \<Rightarrow> (string \<times> jsval) list" where
  "put_prop ps k v =
     (if map_of ps k \<noteq> None then replace_prop ps k v
      else
        (case array_index k of
           None \<Rightarrow> ps @ [(k, v)]
         | Some i \<Rightarrow> insert_index ps i k v))"

definition enumerated :: "(string \<times> jsval) list \<Rightarrow> (string \<times> jsval) list" where
  "enumerated kvs = foldl (\<lambda>ps (k, v). put_prop ps k v) [] kvs"

fun json_text :: "jsval \<Rightarrow> string" where
  "json_text JUndefined = ''null''"
| "json_text JNull = ''null''"
| "json_text (JBool b) = (if b then ''true'' else ''false'')"
| "json_text (JNum n) = (case n of Fin r \<Rightarrow> number_text r | _ \<Rightarrow> ''null'')"
| "json_text (JStr s) = quote s"
| "json_text (JArr xs) = CHR ''['' # commas (map json_text xs) @ '']''"
| "json_text (JObj kvs) =
     CHR ''{'' # commas (map (\<lambda>(k, v). quote k @ CHR '':'' # json_text v)
                          (filter (\<lambda>(k, v). v \<noteq> JUndefined) kvs)) @ ''}''"

fun in_order :: "jsval \<Rightarrow> jsval" where
  "in_order (JArr xs) = JArr (map in_order xs)"
| "in_order (JObj kvs) = JObj (enumerated (map (\<lambda>(k, v). (k, in_order v)) kvs))"
| "in_order v = v"

definition ref_stringify :: "jsval \<Rightarrow> string" where
  "ref_stringify v = json_text (in_order v)"

subsection \<open>Parsing\<close>

text \<open>
  Each parser returns what it read and the rest of the text, or \<open>None\<close> where the
  text is not JSON. A number is read exactly and then rounded.
\<close>

definition is_ws :: "char \<Rightarrow> bool" where
  "is_ws c = (c = CHR '' '' \<or> c = CHR 0x09 \<or> c = CHR 0x0A \<or> c = CHR 0x0D)"

definition skip_ws :: "string \<Rightarrow> string" where
  "skip_ws cs = dropWhile is_ws cs"

definition digits_then :: "string \<Rightarrow> (int \<times> nat \<times> string) option" where
  "digits_then cs =
     (case parse_digits 0 cs of
        (n, rest) \<Rightarrow>
          if length rest < length cs then Some (n, length cs - length rest, rest) else None)"

definition parse_exponent :: "string \<Rightarrow> (int \<times> string) option" where
  "parse_exponent cs =
     (case cs of
        [] \<Rightarrow> Some (0, cs)
      | c # r \<Rightarrow>
          if c = CHR ''e'' \<or> c = CHR ''E'' then
            (case r of
               [] \<Rightarrow> None
             | s # r' \<Rightarrow>
                 if s = CHR ''-'' then
                   (case digits_then r' of None \<Rightarrow> None | Some (n, l, rest) \<Rightarrow> Some (- n, rest))
                 else if s = CHR ''+'' then
                   (case digits_then r' of None \<Rightarrow> None | Some (n, l, rest) \<Rightarrow> Some (n, rest))
                 else
                   (case digits_then r of None \<Rightarrow> None | Some (n, l, rest) \<Rightarrow> Some (n, rest)))
          else Some (0, cs))"

definition parse_fraction :: "string \<Rightarrow> (rat \<times> string) option" where
  "parse_fraction cs =
     (case cs of
        [] \<Rightarrow> Some (0, cs)
      | c # r \<Rightarrow>
          if c = CHR ''.'' then
            (case digits_then r of
               None \<Rightarrow> None
             | Some (n, l, rest) \<Rightarrow> Some (of_int n / 10 ^ l, rest))
          else Some (0, cs))"

definition parse_unsigned :: "string \<Rightarrow> (rat \<times> string) option" where
  "parse_unsigned cs =
     (case cs of
        [] \<Rightarrow> None
      | c # r \<Rightarrow>
          (case digit_val c of
             None \<Rightarrow> None
           | Some d \<Rightarrow>
               (case (if d = 0 then (0, r) else parse_digits (int d) r) of
                  (n, r1) \<Rightarrow>
                    (case parse_fraction r1 of
                       None \<Rightarrow> None
                     | Some (f, r2) \<Rightarrow>
                         (case parse_exponent r2 of
                            None \<Rightarrow> None
                          | Some (e, r3) \<Rightarrow> Some ((of_int n + f) * pow10 e, r3))))))"

definition parse_number :: "string \<Rightarrow> (jsnum \<times> string) option" where
  "parse_number cs =
     (case cs of
        [] \<Rightarrow> None
      | c # r \<Rightarrow>
          if c = CHR ''-'' then
            (case parse_unsigned r of None \<Rightarrow> None | Some (x, rest) \<Rightarrow> Some (ref_round (- x), rest))
          else
            (case parse_unsigned cs of None \<Rightarrow> None | Some (x, rest) \<Rightarrow> Some (ref_round x, rest)))"

text \<open>
  A code point as bytes; a surrogate that stands alone keeps its three-byte form.
\<close>

definition hex_val :: "char \<Rightarrow> nat option" where
  "hex_val c =
     (case digit_val c of
        Some d \<Rightarrow> Some d
      | None \<Rightarrow>
          map_of [(CHR ''a'', 10), (CHR ''b'', 11), (CHR ''c'', 12), (CHR ''d'', 13),
                  (CHR ''e'', 14), (CHR ''f'', 15), (CHR ''A'', 10), (CHR ''B'', 11),
                  (CHR ''C'', 12), (CHR ''D'', 13), (CHR ''E'', 14), (CHR ''F'', 15)] c)"

definition hex4_val :: "string \<Rightarrow> (nat \<times> string) option" where
  "hex4_val cs =
     (case cs of
        a # b # c # d # rest \<Rightarrow>
          (case (hex_val a, hex_val b, hex_val c, hex_val d) of
             (Some x, Some y, Some z, Some u) \<Rightarrow> Some (x * 4096 + y * 256 + z * 16 + u, rest)
           | _ \<Rightarrow> None)
      | _ \<Rightarrow> None)"

definition utf8 :: "nat \<Rightarrow> string" where
  "utf8 cp =
     (if cp < 128 then [char_of cp]
      else if cp < 2048 then [char_of (192 + cp div 64), char_of (128 + cp mod 64)]
      else if cp < 65536 then
        [char_of (224 + cp div 4096), char_of (128 + cp div 64 mod 64), char_of (128 + cp mod 64)]
      else
        [char_of (240 + cp div 262144), char_of (128 + cp div 4096 mod 64),
         char_of (128 + cp div 64 mod 64), char_of (128 + cp mod 64)])"

definition low_surrogate :: "string \<Rightarrow> (nat \<times> string) option" where
  "low_surrogate cs =
     (case cs of
        a # b # rest \<Rightarrow>
          if a = CHR 0x5C \<and> b = CHR ''u'' then
            (case hex4_val rest of
               None \<Rightarrow> None
             | Some (lo, rest') \<Rightarrow> if 56320 \<le> lo \<and> lo < 57344 then Some (lo, rest') else None)
          else None
      | _ \<Rightarrow> None)"

definition parse_escape :: "string \<Rightarrow> (string \<times> string) option" where
  "parse_escape cs =
     (case cs of
        [] \<Rightarrow> None
      | c # r \<Rightarrow>
          if c = CHR 0x22 \<or> c = CHR 0x5C \<or> c = CHR ''/'' then Some ([c], r)
          else if c = CHR ''b'' then Some ([CHR 0x08], r)
          else if c = CHR ''f'' then Some ([CHR 0x0C], r)
          else if c = CHR ''n'' then Some ([CHR 0x0A], r)
          else if c = CHR ''r'' then Some ([CHR 0x0D], r)
          else if c = CHR ''t'' then Some ([CHR 0x09], r)
          else if c = CHR ''u'' then
            (case hex4_val r of
               None \<Rightarrow> None
             | Some (cp, r') \<Rightarrow>
                 if 55296 \<le> cp \<and> cp < 56320 then
                   (case low_surrogate r' of
                      None \<Rightarrow> Some (utf8 cp, r')
                    | Some (lo, r'') \<Rightarrow>
                        Some (utf8 (65536 + (cp - 55296) * 1024 + (lo - 56320)), r''))
                 else Some (utf8 cp, r'))
          else None)"

fun parse_string :: "nat \<Rightarrow> string \<Rightarrow> string \<Rightarrow> (string \<times> string) option" where
  "parse_string 0 acc cs = None"
| "parse_string (Suc n) acc [] = None"
| "parse_string (Suc n) acc (c # cs) =
     (if c = CHR 0x22 then Some (acc, cs)
      else if c = CHR 0x5C then
        (case parse_escape cs of
           None \<Rightarrow> None
         | Some (s, rest) \<Rightarrow> parse_string n (acc @ s) rest)
      else if of_char c < (32::nat) then None
      else parse_string n (acc @ [c]) cs)"

fun parse_value :: "nat \<Rightarrow> string \<Rightarrow> (jsval \<times> string) option"
and parse_elements :: "nat \<Rightarrow> jsval list \<Rightarrow> string \<Rightarrow> (jsval \<times> string) option"
and parse_members :: "nat \<Rightarrow> (string \<times> jsval) list \<Rightarrow> string \<Rightarrow> (jsval \<times> string) option"
where
  "parse_value 0 cs = None"
| "parse_value (Suc n) cs =
     (case skip_ws cs of
        [] \<Rightarrow> None
      | c # r \<Rightarrow>
          if c = CHR ''n'' then (if take 3 r = ''ull'' then Some (JNull, drop 3 r) else None)
          else if c = CHR ''t'' then (if take 3 r = ''rue'' then Some (JBool True, drop 3 r) else None)
          else if c = CHR ''f'' then (if take 4 r = ''alse'' then Some (JBool False, drop 4 r) else None)
          else if c = CHR 0x22 then
            (case parse_string (length r) [] r of None \<Rightarrow> None | Some (s, r') \<Rightarrow> Some (JStr s, r'))
          else if c = CHR ''['' then
            (case skip_ws r of
               [] \<Rightarrow> None
             | d # r' \<Rightarrow> if d = CHR '']'' then Some (JArr [], r') else parse_elements n [] r)
          else if c = CHR ''{'' then
            (case skip_ws r of
               [] \<Rightarrow> None
             | d # r' \<Rightarrow> if d = CHR ''}'' then Some (JObj [], r') else parse_members n [] r)
          else
            (case parse_number (c # r) of None \<Rightarrow> None | Some (x, r') \<Rightarrow> Some (JNum x, r')))"
| "parse_elements 0 acc cs = None"
| "parse_elements (Suc n) acc cs =
     (case parse_value n cs of
        None \<Rightarrow> None
      | Some (v, r) \<Rightarrow>
          (case skip_ws r of
             [] \<Rightarrow> None
           | d # r' \<Rightarrow>
               if d = CHR '','' then parse_elements n (acc @ [v]) r'
               else if d = CHR '']'' then Some (JArr (acc @ [v]), r')
               else None))"
| "parse_members 0 acc cs = None"
| "parse_members (Suc n) acc cs =
     (case skip_ws cs of
        [] \<Rightarrow> None
      | q # r \<Rightarrow>
          if q \<noteq> CHR 0x22 then None
          else
            (case parse_string (length r) [] r of
               None \<Rightarrow> None
             | Some (k, r1) \<Rightarrow>
                 (case skip_ws r1 of
                    [] \<Rightarrow> None
                  | col # r2 \<Rightarrow>
                      if col \<noteq> CHR '':'' then None
                      else
                        (case parse_value n r2 of
                           None \<Rightarrow> None
                         | Some (v, r3) \<Rightarrow>
                             (case skip_ws r3 of
                                [] \<Rightarrow> None
                              | d # r4 \<Rightarrow>
                                  if d = CHR '','' then parse_members n (put_prop acc k v) r4
                                  else if d = CHR ''}'' then Some (JObj (put_prop acc k v), r4)
                                  else None)))))"

definition ref_parse :: "string \<Rightarrow> js_error + jsval" where
  "ref_parse s =
     (case parse_value (Suc (length s)) s of
        None \<Rightarrow> Inl SyntaxError
      | Some (v, r) \<Rightarrow> if skip_ws r = [] then Inr v else Inl SyntaxError)"

subsection \<open>Conversion to a number\<close>

text \<open>
  \<^verbatim>\<open>StringToNumber\<close>: white space around the literal is dropped; the empty string
  is 0; a literal is decimal, with an optional sign, fraction and exponent, or
  \<^verbatim>\<open>Infinity\<close>, or a hexadecimal, octal or binary whole number; anything else is
  \<^verbatim>\<open>NaN\<close>. The value is read exactly and then rounded.
\<close>

definition str_white_space :: "string list" where
  "str_white_space =
     [[CHR 0x09], [CHR 0x0A], [CHR 0x0B], [CHR 0x0C], [CHR 0x0D], [CHR 0x20],
      [CHR 0xC2, CHR 0xA0], [CHR 0xE1, CHR 0x9A, CHR 0x80],
      [CHR 0xE2, CHR 0x80, CHR 0x80], [CHR 0xE2, CHR 0x80, CHR 0x81],
      [CHR 0xE2, CHR 0x80, CHR 0x82], [CHR 0xE2, CHR 0x80, CHR 0x83],
      [CHR 0xE2, CHR 0x80, CHR 0x84], [CHR 0xE2, CHR 0x80, CHR 0x85],
      [CHR 0xE2, CHR 0x80, CHR 0x86], [CHR 0xE2, CHR 0x80, CHR 0x87],
      [CHR 0xE2, CHR 0x80, CHR 0x88], [CHR 0xE2, CHR 0x80, CHR 0x89],
      [CHR 0xE2, CHR 0x80, CHR 0x8A], [CHR 0xE2, CHR 0x80, CHR 0xA8],
      [CHR 0xE2, CHR 0x80, CHR 0xA9], [CHR 0xE2, CHR 0x80, CHR 0xAF],
      [CHR 0xE2, CHR 0x81, CHR 0x9F], [CHR 0xE3, CHR 0x80, CHR 0x80],
      [CHR 0xEF, CHR 0xBB, CHR 0xBF]]"

fun strip_front :: "nat \<Rightarrow> string list \<Rightarrow> string \<Rightarrow> string" where
  "strip_front 0 ps cs = cs"
| "strip_front (Suc n) ps cs =
     (case find (\<lambda>p. take (length p) cs = p) ps of
        None \<Rightarrow> cs
      | Some p \<Rightarrow> strip_front n ps (drop (length p) cs))"

definition trim :: "string \<Rightarrow> string" where
  "trim s =
     (let t = strip_front (length s) str_white_space s
      in rev (strip_front (length t) (map rev str_white_space) (rev t)))"

fun based_digits :: "nat \<Rightarrow> int \<Rightarrow> string \<Rightarrow> int option" where
  "based_digits b acc [] = Some acc"
| "based_digits b acc (c # cs) =
     (case hex_val c of
        None \<Rightarrow> None
      | Some d \<Rightarrow> if d < b then based_digits b (int b * acc + int d) cs else None)"

definition based_literal :: "nat \<Rightarrow> string \<Rightarrow> jsnum" where
  "based_literal b ds =
     (if ds = [] then NaN
      else (case based_digits b 0 ds of None \<Rightarrow> NaN | Some n \<Rightarrow> ref_round (of_int n)))"

definition unsigned_decimal :: "string \<Rightarrow> rat option" where
  "unsigned_decimal cs =
     (case parse_digits 0 cs of
        (n, r1) \<Rightarrow>
          (case (case r1 of
                   [] \<Rightarrow> Some (0, 0, r1)
                 | c # r \<Rightarrow>
                     if c = CHR ''.'' then
                       (case parse_digits 0 r of
                          (f, r2) \<Rightarrow> Some (of_int f / 10 ^ (length r - length r2), length r - length r2, r2))
                     else Some (0, 0, r1)) of
             None \<Rightarrow> None
           | Some (f, l, r2) \<Rightarrow>
               if length cs - length r1 + l = 0 then None
               else
                 (case parse_exponent r2 of
                    None \<Rightarrow> None
                  | Some (e, r3) \<Rightarrow> if r3 = [] then Some ((of_int n + f) * pow10 e) else None)))"

definition signed_decimal :: "bool \<Rightarrow> string \<Rightarrow> jsnum" where
  "signed_decimal neg cs =
     (if cs = ''Infinity'' then (if neg then NInf else PInf)
      else
        (case unsigned_decimal cs of
           None \<Rightarrow> NaN
         | Some x \<Rightarrow> ref_round (if neg then - x else x)))"

definition StringToNumber :: "string \<Rightarrow> jsnum" where
  "StringToNumber s =
     (case trim s of
        [] \<Rightarrow> Fin 0
      | c # r \<Rightarrow>
          if c = CHR ''0'' \<and> take 1 r \<in> {''x'', ''X''} then based_literal 16 (drop 1 r)
          else if c = CHR ''0'' \<and> take 1 r \<in> {''o'', ''O''} then based_literal 8 (drop 1 r)
          else if c = CHR ''0'' \<and> take 1 r \<in> {''b'', ''B''} then based_literal 2 (drop 1 r)
          else if c = CHR ''-'' then signed_decimal True r
          else if c = CHR ''+'' then signed_decimal False r
          else signed_decimal False (c # r))"

text \<open>
  An array or an object converts through its string: \<^verbatim>\<open>join\<close> for an array, with
  \<^verbatim>\<open>null\<close> and \<^verbatim>\<open>undefined\<close> elements left empty, and
  \<^verbatim>\<open>[object Object]\<close> for an object. The conversion throws a TypeError when it
  meets an object whose own \<^verbatim>\<open>toString\<close> property hides the inherited method.
\<close>

fun js_string :: "jsval \<Rightarrow> string" where
  "js_string JUndefined = ''undefined''"
| "js_string JNull = ''null''"
| "js_string (JBool b) = (if b then ''true'' else ''false'')"
| "js_string (JNum n) =
     (case n of
        NaN \<Rightarrow> ''NaN''
      | PInf \<Rightarrow> ''Infinity''
      | NInf \<Rightarrow> ''-Infinity''
      | Fin r \<Rightarrow> number_text r)"
| "js_string (JStr s) = s"
| "js_string (JArr xs) =
     commas (map (\<lambda>x. if x = JUndefined \<or> x = JNull then [] else js_string x) xs)"
| "js_string (JObj kvs) = ''[object Object]''"

fun own_toString :: "jsval \<Rightarrow> bool" where
  "own_toString (JObj kvs) = (map_of kvs ''toString'' \<noteq> None)"
| "own_toString (JArr xs) = list_ex own_toString xs"
| "own_toString v = False"

definition ref_coerce :: "jsval \<Rightarrow> js_error + jsnum" where
  "ref_coerce v = (if own_toString v then Inl TypeError else Inr (StringToNumber (js_string v)))"

subsection \<open>The platform, and three that refuse\<close>

text \<open>
  \<open>ref_platform\<close> stores and removes whatever it is asked to. \<open>no_quota_platform\<close>
  has no room for any write, \<open>limited_platform n\<close> none for an item of more than \<open>n\<close>
  characters, key and value together, and \<open>no_removal_platform\<close> denies the access
  that a removal needs: every removal throws a SecurityError.
\<close>

definition ref_platform :: platform where
  "ref_platform =
     \<lparr>JSON_parse = ref_parse, JSON_stringify = ref_stringify, coerce = ref_coerce,
      round_double = ref_round, quota_ok = (\<lambda>m k s. True), remove_error = (\<lambda>m k. None)\<rparr>"

definition no_quota_platform :: platform where
  "no_quota_platform = ref_platform\<lparr>quota_ok := (\<lambda>m k s. False)\<rparr>"

definition limited_platform :: "nat \<Rightarrow> platform" where
  "limited_platform n = ref_platform\<lparr>quota_ok := (\<lambda>m k s. length k + length s \<le> n)\<rparr>"

definition no_removal_platform :: platform where
  "no_removal_platform = ref_platform\<lparr>remove_error := (\<lambda>m k. Some SecurityError)\<rparr>"

section \<open>Fetch functions to evaluate with\<close>

text \<open>
  A \<^verbatim>\<open>fetchFunction\<close> whose promise fulfils with \<open>data\<close>, or rejects with \<open>e\<close>,
  \<open>dt\<close> milliseconds after it is called, and that leaves \<^verbatim>\<open>localStorage\<close> alone.
\<close>

definition resolves_with :: "jsval \<Rightarrow> int \<Rightarrow> fetcher" where
  "resolves_with data dt w = (Fulfilled data, w\<lparr>clock := clock w + dt\<rparr>)"

definition rejects_with :: "js_error \<Rightarrow> int \<Rightarrow> fetcher" where
  "rejects_with e dt w = (Rejected e, w\<lparr>clock := clock w + dt\<rparr>)"

section \<open>Helper facts\<close>

subsection \<open>Reading and writing one entry\<close>

lemma get_absent:
  "getItem w key = None \<Longrightarrow> getStorageWithExpiry P key w = (Inr JNull, w)"
  by (simp add: getStorageWithExpiry_def)

lemma get_live:
  assumes "getItem w key = Some s" and "s \<noteq> []"
    and "JSON_parse P s = Inr item" and "get_prop item ''expiry'' = Inr (JNum (Fin e))"
    and "of_int (clock w) \<le> e"
  shows "getStorageWithExpiry P key w = (get_prop item ''value'', w)"
  using assms by (simp add: getStorageWithExpiry_def safeJsonParse_def js_gt_def not_less)

lemma get_expired:
  assumes "getItem w key = Some s" and "s \<noteq> []"
    and "JSON_parse P s = Inr item" and "get_prop item ''expiry'' = Inr (JNum (Fin e))"
    and "e < of_int (clock w)"
  shows "getStorageWithExpiry P key w =
           (case remove_error P (storage w) key of
              None \<Rightarrow> (Inr JNull, removed key w)
            | Some err \<Rightarrow> (Inl err, w))"
  using assms
  by (simp add: getStorageWithExpiry_def safeJsonParse_def js_gt_def removeItem_def removed_def
      split: option.splits)

lemma set_ok:
  assumes "setStorageWithExpiry P key v hours w = Inr w'"
  shows "w' = w\<lparr>storage :=
                  (storage w)(key \<mapsto> JSON_stringify P (make_item v (expiry_of P w hours)))\<rparr>"
  using assms
  by (auto simp: setStorageWithExpiry_def setItem_def Let_def split: if_splits)

lemma set_accepted:
  assumes "quota_ok P (storage w) key (JSON_stringify P (make_item v (expiry_of P w hours)))"
  shows "setStorageWithExpiry P key v hours w =
           Inr (w\<lparr>storage :=
                    (storage w)(key \<mapsto> JSON_stringify P (make_item v (expiry_of P w hours)))\<rparr>)"
  using assms by (simp add: setStorageWithExpiry_def setItem_def Let_def)

lemma expiry_of_make_item: "get_prop (make_item v e) ''expiry'' = Inr (JNum e)"
  by (simp add: make_item_def)

lemma value_of_make_item: "get_prop (make_item v e) ''value'' = Inr v"
  by (simp add: make_item_def)

lemma round_trips_keeps_expiry: "round_trips P x \<Longrightarrow> keeps_expiry P x"
  by (simp add: round_trips_def keeps_expiry_def)

lemma get_after_set_live:
  assumes "setStorageWithExpiry P key v hours w = Inr w'"
    and "expiry_of P w hours = Fin e"
    and "round_trips P (make_item v (Fin e))"
    and "of_int t \<le> e"
  shows "getStorageWithExpiry P key (w'\<lparr>clock := t\<rparr>) = (Inr v, w'\<lparr>clock := t\<rparr>)"
proof -
  let ?s = "JSON_stringify P (make_item v (Fin e))"
  have "getItem (w'\<lparr>clock := t\<rparr>) key = Some ?s"
    using set_ok [OF assms(1)] assms(2) by (simp add: getItem_def)
  moreover have "?s \<noteq> []" and "JSON_parse P ?s = Inr (make_item v (Fin e))"
    using assms(3) by (simp_all add: round_trips_def)
  ultimately show ?thesis
    using get_live [of "w'\<lparr>clock := t\<rparr>" key ?s P "make_item v (Fin e)" e] assms(4)
    by (simp add: expiry_of_make_item value_of_make_item)
qed

lemma get_after_set_expired:
  assumes "setStorageWithExpiry P key v hours w = Inr w'"
    and "expiry_of P w hours = Fin e"
    and "keeps_expiry P (make_item v (Fin e))"
    and "e < of_int t"
  shows "getStorageWithExpiry P key (w'\<lparr>clock := t\<rparr>) =
           (case remove_error P (storage w') key of
              None \<Rightarrow> (Inr JNull, removed key (w'\<lparr>clock := t\<rparr>))
            | Some err \<Rightarrow> (Inl err, w'\<lparr>clock := t\<rparr>))"
proof -
  let ?s = "JSON_stringify P (make_item v (Fin e))"
  have g: "getItem (w'\<lparr>clock := t\<rparr>) key = Some ?s"
    using set_ok [OF assms(1)] assms(2) by (simp add: getItem_def)
  have n: "?s \<noteq> []"
    using assms(3) by (simp add: keeps_expiry_def)
  obtain item where p: "JSON_parse P ?s = Inr item"
    and x: "get_prop item ''expiry'' = Inr (JNum (Fin e))"
    using assms(3) by (auto simp: keeps_expiry_def expiry_of_make_item split: sum.splits)
  show ?thesis
    using get_expired [OF g n p x] assms(4) by simp
qed

subsection \<open>The two paths of getOrFetch\<close>

lemma getOrFetch_hit:
  assumes "getStorageWithExpiry P key w = (Inr v, w1)" and "ToBoolean v"
  shows "getOrFetch P key fetchFunction hours w = (Fulfilled v, 0, w1)"
  using assms by (simp add: getOrFetch_def CacheManager_get_def)

lemma getOrFetch_miss:
  assumes "getStorageWithExpiry P key w = (Inr v, w1)" and "\<not> ToBoolean v"
  shows "getOrFetch P key fetchFunction hours w =
           (case fetchFunction w1 of
              (Throws e, w2) \<Rightarrow> (Throws e, 1, w2)
            | (Rejected e, w2) \<Rightarrow> (Rejected e, 1, w2)
            | (Fulfilled data, w2) \<Rightarrow>
                (case setStorageWithExpiry P key data hours w2 of
                   Inl e \<Rightarrow> (Rejected e, 1, w2)
                 | Inr w3 \<Rightarrow> (Fulfilled data, 1, w3)))"
proof -
  have "setStorageWithExpiry P key data (Some (hours_arg hours)) w2 =
        setStorageWithExpiry P key data hours w2" for data w2
    by (simp add: setStorageWithExpiry_def expiry_of_def hours_arg_def)
  then show ?thesis
    using assms
    by (simp add: getOrFetch_def CacheManager_get_def CacheManager_set_def hours_arg_def
        split: prod.splits settled.splits sum.splits)
qed

subsection \<open>The reference rounding on whole numbers\<close>

lemma round_half_even_of_int: "round_half_even (of_int k) = k"
  by (simp add: round_half_even_def)

lemma pow2_nonpos: "q \<le> 0 \<Longrightarrow> pow2 q = 1 / 2 ^ nat (- q)"
  by (cases "q = 0") (simp_all add: pow2_def)

text \<open>A whole number below \<open>2 ^ 53\<close> is a double: rounding leaves it as it is.\<close>

lemma ref_round_int:
  assumes "\<bar>n\<bar> < 2 ^ 53"
  shows "ref_round (of_int n) = Fin (of_int n)"
proof (cases "n = 0")
  case True
  then show ?thesis by (simp add: ref_round_def)
next
  case False
  define m where "m = \<bar>n\<bar>"
  have m: "0 < m" "m < 2 ^ 53" "\<bar>rat_of_int n\<bar> = of_int m"
    using False assms by (simp_all add: m_def)
  define L where "L = bitlen m - 1"
  have "bitlen m \<le> 53"
    using m(2) by (simp add: bitlen_le_iff_power)
  moreover have "1 \<le> bitlen m"
    using m(1) bitlen_eq_zero_iff [of m] bitlen_nonneg [of m] by linarith
  ultimately have L: "0 \<le> L" "L \<le> 52"
    by (simp_all add: L_def)
  have il: "ilog2 (of_int m) = L"
    using m(1) by (simp add: ilog2_def L_def)
  define j where "j = nat (52 - L)"
  have q: "max L (- 1022) - 52 = - int j"
    using L by (simp add: j_def)
  have p: "pow2 (- int j) = 1 / 2 ^ j"
    using pow2_nonpos [of "- int j"] by simp
  have d: "rat_of_int m / pow2 (- int j) = of_int (m * 2 ^ j)"
    by (simp add: p)
  have y: "of_int (round_half_even (rat_of_int m / pow2 (- int j))) * pow2 (- int j) =
             rat_of_int m"
    unfolding d round_half_even_of_int by (simp add: p)
  have big: "\<not> (2::rat) ^ 1024 \<le> of_int m"
  proof -
    have "rat_of_int m < 2 ^ 53"
      using m(2) by (metis of_int_less_numeral_power_cancel_iff)
    also have "\<dots> \<le> 2 ^ 1024"
      by (rule power_increasing) simp_all
    finally show ?thesis by simp
  qed
  have nz: "rat_of_int m \<noteq> 0"
    using m(1) by simp
  have "ref_round (of_int n) = Fin (if 0 < rat_of_int n then of_int m else - of_int m)"
    unfolding ref_round_def Let_def m(3) il q y using big nz by simp
  also have "(if 0 < rat_of_int n then rat_of_int m else - of_int m) = of_int n"
    by (simp add: m_def)
  finally show ?thesis .
qed

lemma ref_round_numeral:
  "numeral k < (2::int) ^ 53 \<Longrightarrow> ref_round (numeral k) = Fin (numeral k)"
  using ref_round_int [of "numeral k"] by simp

lemma ref_round_neg_numeral:
  "numeral k < (2::int) ^ 53 \<Longrightarrow> ref_round (- numeral k) = Fin (- numeral k)"
  using ref_round_int [of "- numeral k"] by simp

lemma ref_round_0: "ref_round 0 = Fin 0"
  by (simp add: ref_round_def)

lemma ref_round_1: "ref_round 1 = Fin 1"
  using ref_round_int [of 1] by simp

lemma floor_rat_numeral: "\<lfloor>numeral a / numeral b :: rat\<rfloor> = numeral a div numeral b"
  using floor_divide_of_int_eq [of "numeral a" "numeral b", where ?'a = rat] by simp

subsection \<open>The reference platform on concrete texts\<close>

lemmas ref_round_eval = ref_round_numeral ref_round_neg_numeral ref_round_0 ref_round_1

lemma replicate_numeral: "replicate (numeral k) x = x # replicate (pred_numeral k) x"
  by (simp add: numeral_eq_Suc)

lemmas number_eval = number_text_def positive_text_def dec_exponent_def show_digits.simps
  digit_char_def pow10_def floor_rat_numeral replicate_numeral ref_round_numeral
  ref_round_neg_numeral ref_round_0 ref_round_1 Let_def

lemma number_text_vals:
  "number_text 0 = ''0''"
  "number_text 1 = ''1''"
  "number_text 2 = ''2''"
  "number_text 7 = ''7''"
  "number_text 22 = ''22''"
  "number_text 42 = ''42''"
  "number_text 5 = ''5''"
  "number_text 1000 = ''1000''"
  "number_text 1800000 = ''1800000''"
  "number_text 3600000 = ''3600000''"
  "number_text 3600050 = ''3600050''"
  "number_text 7200010 = ''7200010''"
  "number_text 86400010 = ''86400010''"
  "number_text 1700000000000 = ''1700000000000''"
  by (simp_all add: number_eval)

lemmas ref_print = ref_stringify_def make_item_def enumerated_def put_prop_def array_index_def
  digit_val_def quote_def escape_char_def number_text_vals

lemmas ref_read = ref_parse_def make_item_def skip_ws_def is_ws_def digit_val_def
  parse_number_def parse_unsigned_def parse_fraction_def parse_exponent_def put_prop_def
  array_index_def pow10_def ref_round_numeral ref_round_0 ref_round_1

lemma ref_item_A:
  \<open>ref_stringify (make_item (JNum (Fin 1)) (Fin 3600000)) = ''{"value":1,"expiry":3600000}''\<close>
  \<open>ref_parse ''{"value":1,"expiry":3600000}'' = Inr (make_item (JNum (Fin 1)) (Fin 3600000))\<close>
  by (simp_all add: ref_print ref_read)


lemma ref_item_C:
  \<open>ref_stringify (make_item (JStr ''a'') (Fin 5)) = ''{"value":"a","expiry":5}''\<close>
  \<open>ref_parse ''{"value":"a","expiry":5}'' = Inr (make_item (JStr ''a'') (Fin 5))\<close>
  by (simp_all add: ref_print ref_read)

lemma ref_item_D:
  \<open>ref_stringify (make_item (JNum (Fin 1)) (Fin 0)) = ''{"value":1,"expiry":0}''\<close>
  \<open>ref_parse ''{"value":1,"expiry":0}'' = Inr (make_item (JNum (Fin 1)) (Fin 0))\<close>
  by (simp_all add: ref_print ref_read)

lemma ref_item_E:
  \<open>ref_stringify (make_item (JNum (Fin 2)) (Fin 7200010)) = ''{"value":2,"expiry":7200010}''\<close>
  \<open>ref_parse ''{"value":2,"expiry":7200010}'' = Inr (make_item (JNum (Fin 2)) (Fin 7200010))\<close>
  by (simp_all add: ref_print ref_read)

lemma ref_item_F:
  \<open>ref_stringify (make_item (JNum (Fin 0)) (Fin 3600000)) = ''{"value":0,"expiry":3600000}''\<close>
  \<open>ref_parse ''{"value":0,"expiry":3600000}'' = Inr (make_item (JNum (Fin 0)) (Fin 3600000))\<close>
  by (simp_all add: ref_print ref_read)

lemma ref_item_G:
  \<open>ref_stringify (make_item (JNum (Fin 7)) (Fin 3600050)) = ''{"value":7,"expiry":3600050}''\<close>
  \<open>ref_parse ''{"value":7,"expiry":3600050}'' = Inr (make_item (JNum (Fin 7)) (Fin 3600050))\<close>
  by (simp_all add: ref_print ref_read)

lemma ref_item_H:
  \<open>ref_stringify (make_item (JNum (Fin 7)) (Fin 3600000)) = ''{"value":7,"expiry":3600000}''\<close>
  by (simp add: ref_print)


lemma ref_item_J:
  \<open>ref_stringify (make_item (JNum (Fin 22)) (Fin 7200010)) = ''{"value":22,"expiry":7200010}''\<close>
  by (simp add: ref_print)

lemma ref_parse_oops: "ref_parse ''{oops'' = Inl SyntaxError"
  by (simp add: ref_read parse_number_def)

text \<open>The expiry that the reference platform computes, at the inputs used below.\<close>

lemmas ref_arith = expiry_of_def hours_arg_def ref_platform_def no_quota_platform_def
  limited_platform_def no_removal_platform_def ref_round_numeral ref_round_neg_numeral
  ref_round_0 ref_round_1

lemma ref_expiry:
  "expiry_of ref_platform \<lparr>storage = m, clock = 0\<rparr> (Some (Fin 1)) = Fin 3600000"
  "expiry_of ref_platform \<lparr>storage = m, clock = 1000\<rparr> (Some (Fin 0)) = Fin 1000"
  "expiry_of ref_platform \<lparr>storage = m, clock = 5\<rparr> (Some (Fin 0)) = Fin 5"
  "expiry_of ref_platform \<lparr>storage = m, clock = 3600000\<rparr> (Some (Fin (- 1))) = Fin 0"
  "expiry_of ref_platform \<lparr>storage = m, clock = 10\<rparr> (Some (Fin 2)) = Fin 7200010"
  "expiry_of ref_platform \<lparr>storage = m, clock = 50\<rparr> (Some (Fin 1)) = Fin 3600050"
  "expiry_of ref_platform \<lparr>storage = m, clock = 0\<rparr> (Some (Fin (1 / 2))) = Fin 1800000"
  "expiry_of no_removal_platform \<lparr>storage = m, clock = 0\<rparr> (Some (Fin 1)) = Fin 3600000"
  "expiry_of no_removal_platform \<lparr>storage = m, clock = 5\<rparr> (Some (Fin 0)) = Fin 5"
  "expiry_of (limited_platform n) \<lparr>storage = m, clock = 0\<rparr> (Some (Fin 1)) = Fin 3600000"
  "expiry_of (limited_platform n) \<lparr>storage = m, clock = 10\<rparr> (Some (Fin 2)) = Fin 7200010"
  by (simp_all add: ref_arith)

lemma ref_fields:
  "JSON_parse ref_platform = ref_parse"
  "JSON_stringify ref_platform = ref_stringify"
  "quota_ok ref_platform m k s"
  "remove_error ref_platform m k = None"
  "JSON_parse no_quota_platform = ref_parse"
  "JSON_stringify no_quota_platform = ref_stringify"
  "\<not> quota_ok no_quota_platform m k s"
  "JSON_parse (limited_platform n) = ref_parse"
  "JSON_stringify (limited_platform n) = ref_stringify"
  "quota_ok (limited_platform n) m k s \<longleftrightarrow> length k + length s \<le> n"
  "JSON_parse no_removal_platform = ref_parse"
  "JSON_stringify no_removal_platform = ref_stringify"
  "quota_ok no_removal_platform m k s"
  "remove_error no_removal_platform m k = Some SecurityError"
  by (simp_all add: ref_platform_def no_quota_platform_def limited_platform_def
      no_removal_platform_def)

lemmas ref_run = ref_fields setStorageWithExpiry_def setItem_def Let_def round_trips_def
  keeps_expiry_def getItem_def removed_def ref_expiry expiry_of_make_item value_of_make_item

subsection \<open>The arithmetic of doubles at work\<close>

lemma bitlen_double: "0 < x \<Longrightarrow> bitlen x = bitlen (x div 2) + 1"
  by (subst compute_bitlen) simp

lemma bitlen_numeral:
  "bitlen 1 = 1"
  "bitlen (numeral (Num.Bit0 k)) = bitlen (numeral k) + 1"
  "bitlen (numeral (Num.Bit1 k)) = bitlen (numeral k) + 1"
  using bitlen_double [of 1] bitlen_double [of "numeral (Num.Bit0 k)"]
    bitlen_double [of "numeral (Num.Bit1 k)"]
  by simp_all

lemma ceiling_rat_numeral: "\<lceil>numeral a / numeral b :: rat\<rceil> = - (- numeral a div numeral b)"
  using ceiling_divide_eq_div [of "numeral a" "numeral b", where ?'a = rat] by simp

lemmas round_eval = ref_round_def ilog2_def bitlen_numeral pow2_def round_half_even_def Let_def
  floor_rat_numeral ceiling_rat_numeral

text \<open>
  A sum above \<open>2 ^ 53\<close> is rounded: ten thousand million hours from the clock
  1700000000000 end at 36001700000000000, not at 36001700000000001.
\<close>

lemma rounded_expiry:
  "expiry_of ref_platform \<lparr>storage = m, clock = 1700000000000\<rparr> (Some (Fin 10000000000)) =
     Fin 36001700000000000"
  by (simp add: expiry_of_def hours_arg_def ref_platform_def round_eval)

text \<open>
  A product that overflows is \<^verbatim>\<open>Infinity\<close>, which \<^verbatim>\<open>JSON.stringify\<close> prints as
  \<^verbatim>\<open>null\<close>: the entry is read as expired in the millisecond of the write.
\<close>

lemma overflowing_ttl:
  \<open>expiry_of ref_platform \<lparr>storage = Map.empty, clock = 1000\<rparr> (Some (Fin (2 ^ 1023))) = PInf \<and>
   setStorageWithExpiry ref_platform ''k'' (JNum (Fin 1)) (Some (Fin (2 ^ 1023)))
       \<lparr>storage = Map.empty, clock = 1000\<rparr> =
     Inr \<lparr>storage = [''k'' \<mapsto> ''{"value":1,"expiry":null}''], clock = 1000\<rparr> \<and>
   getStorageWithExpiry ref_platform ''k''
       \<lparr>storage = [''k'' \<mapsto> ''{"value":1,"expiry":null}''], clock = 1000\<rparr> =
     (Inr JNull, \<lparr>storage = Map.empty, clock = 1000\<rparr>)\<close>
proof -
  have x: "expiry_of ref_platform \<lparr>storage = Map.empty, clock = 1000\<rparr> (Some (Fin (2 ^ 1023))) =
             PInf"
    by (simp add: expiry_of_def hours_arg_def ref_platform_def ref_round_def)
  have p: \<open>ref_stringify (make_item (JNum (Fin 1)) PInf) = ''{"value":1,"expiry":null}''\<close>
    \<open>ref_parse ''{"value":1,"expiry":null}'' =
       Inr (JObj [(''value'', JNum (Fin 1)), (''expiry'', JNull)])\<close>
    by (simp_all add: ref_print ref_read)
  show ?thesis
    using x p
    by (simp add: setStorageWithExpiry_def setItem_def getStorageWithExpiry_def getItem_def
        safeJsonParse_def js_gt_def removeItem_def ref_fields)
qed

text \<open>
  A term too small to change the sum is absorbed: with minus \<open>2 ^ -40\<close> hours the
  expiry is the clock of the write, and the entry is live in that millisecond.
\<close>

lemma tiny_negative_ttl:
  \<open>expiry_of ref_platform \<lparr>storage = Map.empty, clock = 1700000000000\<rparr>
     (Some (Fin (- 1 / 2 ^ 40))) = Fin 1700000000000 \<and>
   setStorageWithExpiry ref_platform ''k'' (JNum (Fin 1)) (Some (Fin (- 1 / 2 ^ 40)))
       \<lparr>storage = Map.empty, clock = 1700000000000\<rparr> =
     Inr \<lparr>storage = [''k'' \<mapsto> ''{"value":1,"expiry":1700000000000}''],
          clock = 1700000000000\<rparr> \<and>
   getStorageWithExpiry ref_platform ''k''
       \<lparr>storage = [''k'' \<mapsto> ''{"value":1,"expiry":1700000000000}''],
        clock = 1700000000000\<rparr> =
     (Inr (JNum (Fin 1)),
      \<lparr>storage = [''k'' \<mapsto> ''{"value":1,"expiry":1700000000000}''],
       clock = 1700000000000\<rparr>)\<close>
proof -
  let ?w' = \<open>\<lparr>storage = [''k'' \<mapsto> ''{"value":1,"expiry":1700000000000}''],
              clock = 1700000000000\<rparr>\<close>
  have x: "expiry_of ref_platform \<lparr>storage = Map.empty, clock = 1700000000000\<rparr>
             (Some (Fin (- 1 / 2 ^ 40))) = Fin 1700000000000"
    by (simp add: expiry_of_def hours_arg_def ref_platform_def round_eval)
  have p: \<open>ref_stringify (make_item (JNum (Fin 1)) (Fin 1700000000000)) =
             ''{"value":1,"expiry":1700000000000}''\<close>
    \<open>ref_parse ''{"value":1,"expiry":1700000000000}'' =
       Inr (make_item (JNum (Fin 1)) (Fin 1700000000000))\<close>
    by (simp_all add: ref_print ref_read)
  have "getStorageWithExpiry ref_platform ''k'' ?w' = (Inr (JNum (Fin 1)), ?w')"
    using get_live [where w = ?w' and key = "''k''" and P = ref_platform
        and item = "make_item (JNum (Fin 1)) (Fin 1700000000000)" and e = 1700000000000] p
    by (simp add: getItem_def ref_fields expiry_of_make_item value_of_make_item)
  then show ?thesis
    using x p by (simp add: setStorageWithExpiry_def setItem_def ref_fields)
qed

text \<open>
  A value that JSON does not give back: \<^verbatim>\<open>[undefined]\<close> is stored as
  \<^verbatim>\<open>[null]\<close>.
\<close>

lemma undefined_in_array:
  \<open>ref_stringify (make_item (JArr [JUndefined]) (Fin 1000)) =
     ''{"value":[null],"expiry":1000}'' \<and>
   ref_parse ''{"value":[null],"expiry":1000}'' = Inr (make_item (JArr [JNull]) (Fin 1000)) \<and>
   \<not> round_trips ref_platform (make_item (JArr [JUndefined]) (Fin 1000)) \<and>
   keeps_expiry ref_platform (make_item (JArr [JUndefined]) (Fin 1000))\<close>
proof -
  have p: \<open>ref_stringify (make_item (JArr [JUndefined]) (Fin 1000)) =
             ''{"value":[null],"expiry":1000}''\<close>
    \<open>ref_parse ''{"value":[null],"expiry":1000}'' = Inr (make_item (JArr [JNull]) (Fin 1000))\<close>
    by (simp_all add: ref_print ref_read)
  show ?thesis
    unfolding round_trips_def keeps_expiry_def ref_fields p
    by (simp add: make_item_def)
qed

section \<open>The claims\<close>

subsection \<open>C1\<close>

text \<open>
  Claim C1 says that \<^verbatim>\<open>get(key)\<close> on a stored text that does not deserialize
  returns a CorruptEntry error. The code has no such error: \<^verbatim>\<open>safeJsonParse\<close>
  swallows the failure and hands back \<^verbatim>\<open>{}\<close>, whose \<^verbatim>\<open>expiry\<close> is
  \<^verbatim>\<open>undefined\<close>, so the comparison with the clock is false and the call returns
  \<^verbatim>\<open>item.value\<close>.

  C1 as amended: for every key whose stored text makes \<^verbatim>\<open>JSON.parse\<close> throw,
  \<^verbatim>\<open>getStorageWithExpiry\<close> throws nothing and leaves the entry in the store; it
  returns \<^verbatim>\<open>undefined\<close>, or \<^verbatim>\<open>null\<close> when the stored text is the empty string.
\<close>

theorem corrupt_entry_reads_as_value:
  assumes "getItem w key = Some s" and "JSON_parse P s = Inl e"
  shows "getStorageWithExpiry P key w =
           (if s = [] then (Inr JNull, w) else (Inr JUndefined, w))"
  using assms
  by (simp add: getStorageWithExpiry_def safeJsonParse_def js_gt_def)

text \<open>C1, the amended statement at the stored text \<^verbatim>\<open>{oops\<close>.\<close>

theorem corrupt_entry_reads_as_value_witness:
  "getItem \<lparr>storage = [''k'' \<mapsto> ''{oops''], clock = 5\<rparr> ''k'' = Some ''{oops'' \<and>
   JSON_parse ref_platform ''{oops'' = Inl SyntaxError \<and>
   getStorageWithExpiry ref_platform ''k'' \<lparr>storage = [''k'' \<mapsto> ''{oops''], clock = 5\<rparr> =
     (Inr JUndefined, \<lparr>storage = [''k'' \<mapsto> ''{oops''], clock = 5\<rparr>)"
proof -
  have a: "getItem \<lparr>storage = [''k'' \<mapsto> ''{oops''], clock = 5\<rparr> ''k'' = Some ''{oops''"
    by (simp add: getItem_def)
  have b: "JSON_parse ref_platform ''{oops'' = Inl SyntaxError"
    by (simp add: ref_fields ref_parse_oops)
  show ?thesis
    using a b corrupt_entry_reads_as_value [OF a b] by simp
qed

text \<open>
  C1 as stated fails: the text \<^verbatim>\<open>{oops\<close> stored under \<^verbatim>\<open>k\<close> does not
  parse, and the call returns \<^verbatim>\<open>undefined\<close> as a value, not an error.
\<close>

theorem corrupt_entry_counterexample:
  "JSON_parse ref_platform ''{oops'' = Inl SyntaxError \<and>
   getStorageWithExpiry ref_platform ''k'' \<lparr>storage = [''k'' \<mapsto> ''{oops''], clock = 0\<rparr> =
     (Inr JUndefined, \<lparr>storage = [''k'' \<mapsto> ''{oops''], clock = 0\<rparr>)"
  by (simp add: getStorageWithExpiry_def getItem_def safeJsonParse_def js_gt_def
      ref_fields ref_parse_oops)

subsection \<open>C2\<close>




subsection \<open>C3\<close>

text \<open>
  Claim C3 says that after \<^verbatim>\<open>set(k, v, ttl)\<close>, once the clock is past the expiry,
  \<^verbatim>\<open>get(k)\<close> returns nothing and deletes \<open>k\<close>, and that a failure of the delete is
  never propagated. The code calls \<^verbatim>\<open>localStorage.removeItem(key)\<close> with nothing to
  catch what it throws: when the removal fails, \<^verbatim>\<open>getStorageWithExpiry\<close> throws the
  error of the removal and the entry stays.

  C3 as amended: for every key, every value \<open>v\<close> and every number of hours for which
  the expiry the code computes is a finite number \<open>e\<close> that the stored text keeps,
  after a \<^verbatim>\<open>setStorageWithExpiry\<close> that the store accepts, a
  \<^verbatim>\<open>getStorageWithExpiry\<close> at any clock past \<open>e\<close> removes the entry and returns
  \<^verbatim>\<open>null\<close> when the removal goes through; when the removal throws, the call throws
  the same error and leaves the store as it is.
\<close>

theorem get_after_expiry_deletes:
  assumes "setStorageWithExpiry P key v hours w = Inr w'"
    and "expiry_of P w hours = Fin e"
    and "keeps_expiry P (make_item v (Fin e))"
    and "e < of_int t"
  shows "getStorageWithExpiry P key (w'\<lparr>clock := t\<rparr>) =
           (case remove_error P (storage w') key of
              None \<Rightarrow> (Inr JNull, removed key (w'\<lparr>clock := t\<rparr>))
            | Some err \<Rightarrow> (Inl err, w'\<lparr>clock := t\<rparr>))"
  using assms by (rule get_after_set_expired)

text \<open>
  C3, the amended statement for an entry kept one hour and read one millisecond after
  the hour, where the removal goes through and where it does not.
\<close>

theorem get_after_expiry_deletes_witness:
  \<open>setStorageWithExpiry ref_platform ''k'' (JNum (Fin 1)) (Some (Fin 1))
       \<lparr>storage = Map.empty, clock = 0\<rparr> =
     Inr \<lparr>storage = [''k'' \<mapsto> ''{"value":1,"expiry":3600000}''], clock = 0\<rparr> \<and>
   expiry_of ref_platform \<lparr>storage = Map.empty, clock = 0\<rparr> (Some (Fin 1)) = Fin 3600000 \<and>
   keeps_expiry ref_platform (make_item (JNum (Fin 1)) (Fin 3600000)) \<and>
   3600000 < rat_of_int 3600001 \<and>
   getStorageWithExpiry ref_platform ''k''
       \<lparr>storage = [''k'' \<mapsto> ''{"value":1,"expiry":3600000}''], clock = 3600001\<rparr> =
     (Inr JNull, \<lparr>storage = Map.empty, clock = 3600001\<rparr>) \<and>
   getStorageWithExpiry no_removal_platform ''k''
       \<lparr>storage = [''k'' \<mapsto> ''{"value":1,"expiry":3600000}''], clock = 3600001\<rparr> =
     (Inl SecurityError,
      \<lparr>storage = [''k'' \<mapsto> ''{"value":1,"expiry":3600000}''], clock = 3600001\<rparr>)\<close>
proof -
  let ?w = "\<lparr>storage = Map.empty, clock = 0\<rparr>"
  let ?w' = \<open>\<lparr>storage = [''k'' \<mapsto> ''{"value":1,"expiry":3600000}''], clock = 0\<rparr>\<close>
  have a: "setStorageWithExpiry ref_platform ''k'' (JNum (Fin 1)) (Some (Fin 1)) ?w = Inr ?w'"
    by (simp add: ref_run ref_item_A)
  have b: "expiry_of ref_platform ?w (Some (Fin 1)) = Fin 3600000"
    by (simp add: ref_expiry)
  have c: "keeps_expiry ref_platform (make_item (JNum (Fin 1)) (Fin 3600000))"
    by (simp add: ref_run ref_item_A)
  have d: "3600000 < rat_of_int 3600001"
    by simp
  have a': "setStorageWithExpiry no_removal_platform ''k'' (JNum (Fin 1)) (Some (Fin 1)) ?w =
              Inr ?w'"
    by (simp add: ref_run ref_item_A)
  have b': "expiry_of no_removal_platform ?w (Some (Fin 1)) = Fin 3600000"
    by (simp add: ref_expiry)
  have c': "keeps_expiry no_removal_platform (make_item (JNum (Fin 1)) (Fin 3600000))"
    by (simp add: ref_run ref_item_A)
  show ?thesis
    using a b c get_after_expiry_deletes [OF a b c d]
      get_after_expiry_deletes [OF a' b' c' d]
    by (simp add: removed_def ref_fields)
qed

text \<open>
  C3 as stated fails: where the removal throws, the read of the expired entry throws
  the SecurityError of the removal instead of returning \<^verbatim>\<open>null\<close>, and the entry
  is still in the store.
\<close>

theorem failed_removal_counterexample:
  \<open>setStorageWithExpiry no_removal_platform ''session'' (JStr ''a'') (Some (Fin 0))
       \<lparr>storage = Map.empty, clock = 5\<rparr> =
     Inr \<lparr>storage = [''session'' \<mapsto> ''{"value":"a","expiry":5}''], clock = 5\<rparr> \<and>
   getStorageWithExpiry no_removal_platform ''session''
       \<lparr>storage = [''session'' \<mapsto> ''{"value":"a","expiry":5}''], clock = 6\<rparr> =
     (Inl SecurityError,
      \<lparr>storage = [''session'' \<mapsto> ''{"value":"a","expiry":5}''], clock = 6\<rparr>)\<close>
proof -
  let ?w' = \<open>\<lparr>storage = [''session'' \<mapsto> ''{"value":"a","expiry":5}''], clock = 6\<rparr>\<close>
  have "getStorageWithExpiry no_removal_platform ''session'' ?w' = (Inl SecurityError, ?w')"
    using get_expired [where w = ?w' and key = "''session''" and P = no_removal_platform
        and item = "make_item (JStr ''a'') (Fin 5)" and e = 5]
    by (simp add: ref_run ref_item_C)
  then show ?thesis
    by (simp add: ref_run ref_item_C)
qed

subsection \<open>C4\<close>

text \<open>
  Claim C4 says that \<^verbatim>\<open>getOrFetch\<close> on a key with a live entry returns its value
  and does not call \<^verbatim>\<open>fetchFunction\<close>. The code tests \<^verbatim>\<open>if (cached)\<close>, which
  is false for a live entry whose value is falsy (\<^verbatim>\<open>0\<close>, \<^verbatim>\<open>false\<close>, the empty
  string), although \<^verbatim>\<open>getStorageWithExpiry\<close> returns \<^verbatim>\<open>null\<close> for a missing or
  expired entry and nothing else. The evaluation below is the code on the entry that
  \<^verbatim>\<open>CacheManager.set('k', 0, 1)\<close> writes: \<^verbatim>\<open>CacheManager.get\<close> returns the live
  \<^verbatim>\<open>0\<close>, and \<^verbatim>\<open>getOrFetch\<close> calls \<^verbatim>\<open>fetchFunction\<close> once, fulfils with its
  \<^verbatim>\<open>7\<close> and overwrites the entry.
  (\<open>getOrFetch_hit\<close> above is the hit path for the values that are truthy.)
\<close>

theorem getOrFetch_refetches_live_falsy_value:
  \<open>CacheManager_set ref_platform ''k'' (JNum (Fin 0)) (Some (Fin 1))
       \<lparr>storage = Map.empty, clock = 0\<rparr> =
     Inr \<lparr>storage = [''k'' \<mapsto> ''{"value":0,"expiry":3600000}''], clock = 0\<rparr> \<and>
   CacheManager_get ref_platform ''k''
       \<lparr>storage = [''k'' \<mapsto> ''{"value":0,"expiry":3600000}''], clock = 0\<rparr> =
     (Inr (JNum (Fin 0)),
      \<lparr>storage = [''k'' \<mapsto> ''{"value":0,"expiry":3600000}''], clock = 0\<rparr>) \<and>
   getOrFetch ref_platform ''k'' (resolves_with (JNum (Fin 7)) 0) (Some (Fin 1))
       \<lparr>storage = [''k'' \<mapsto> ''{"value":0,"expiry":3600000}''], clock = 0\<rparr> =
     (Fulfilled (JNum (Fin 7)), 1,
      \<lparr>storage = [''k'' \<mapsto> ''{"value":7,"expiry":3600000}''], clock = 0\<rparr>)\<close>
proof -
  let ?w = \<open>\<lparr>storage = [''k'' \<mapsto> ''{"value":0,"expiry":3600000}''], clock = 0\<rparr>\<close>
  have s: "CacheManager_set ref_platform ''k'' (JNum (Fin 0)) (Some (Fin 1))
             \<lparr>storage = Map.empty, clock = 0\<rparr> = Inr ?w"
    by (simp add: CacheManager_set_def hours_arg_def ref_run ref_item_F)
  have g: "getStorageWithExpiry ref_platform ''k'' ?w = (Inr (JNum (Fin 0)), ?w)"
    using get_live [where w = ?w and key = "''k''" and P = ref_platform
        and item = "make_item (JNum (Fin 0)) (Fin 3600000)" and e = 3600000]
    by (simp add: ref_run ref_item_F)
  have \<open>getOrFetch ref_platform ''k'' (resolves_with (JNum (Fin 7)) 0) (Some (Fin 1)) ?w =
     (Fulfilled (JNum (Fin 7)), 1,
      \<lparr>storage = [''k'' \<mapsto> ''{"value":7,"expiry":3600000}''], clock = 0\<rparr>)\<close>
    using getOrFetch_miss [OF g, of "resolves_with (JNum (Fin 7)) 0" "Some (Fin 1)"]
    by (simp add: ref_run ref_item_H resolves_with_def)
  then show ?thesis
    using s g by (simp add: CacheManager_get_def)
qed

subsection \<open>C5\<close>

text \<open>
  Claim C5 says that on a key with no entry, or with an expired one, \<^verbatim>\<open>getOrFetch\<close>
  calls \<^verbatim>\<open>fetchFunction\<close> once, returns the fetched value and writes it, so that a
  read before the expiry returns it. The write can fail, and then nothing of this
  holds: the promise rejects and nothing is stored. And what a later read returns is
  what JSON gives back, which for a value such as \<^verbatim>\<open>[undefined]\<close> is another value
  (\<open>undefined_in_array\<close> below).

  C5 as amended: on a key with no entry, or with an expired entry whose removal goes
  through, when \<^verbatim>\<open>fetchFunction\<close> fulfils with \<open>data\<close>, the store accepts the
  write, the expiry the code computes is a finite number \<open>e\<close> and the item
  \<^verbatim>\<open>{value: data, expiry: e}\<close> is one that JSON gives back, \<^verbatim>\<open>getOrFetch\<close> calls
  \<^verbatim>\<open>fetchFunction\<close> exactly once and fulfils with \<open>data\<close>, and a
  \<^verbatim>\<open>getStorageWithExpiry\<close> at any clock up to \<open>e\<close> returns \<open>data\<close>.
\<close>

theorem getOrFetch_miss_fetches_once_and_caches:
  assumes "getItem w key = None \<or>
             (getItem w key = Some s \<and> s \<noteq> [] \<and> JSON_parse P s = Inr item \<and>
              get_prop item ''expiry'' = Inr (JNum (Fin e0)) \<and> e0 < of_int (clock w) \<and>
              remove_error P (storage w) key = None)"
    and "fetchFunction (if getItem w key = None then w else removed key w) =
           (Fulfilled data, w2)"
    and "expiry_of P w2 hours = Fin e"
    and "quota_ok P (storage w2) key (JSON_stringify P (make_item data (Fin e)))"
    and "round_trips P (make_item data (Fin e))"
    and "of_int t \<le> e"
  shows "case getOrFetch P key fetchFunction hours w of
           (r, calls, w3) \<Rightarrow>
             r = Fulfilled data \<and> calls = 1 \<and>
             getStorageWithExpiry P key (w3\<lparr>clock := t\<rparr>) = (Inr data, w3\<lparr>clock := t\<rparr>)"
proof -
  let ?w1 = "if getItem w key = None then w else removed key w"
  have g: "getStorageWithExpiry P key w = (Inr JNull, ?w1)"
    using assms(1) by (auto simp: get_absent get_expired)
  obtain w3 where s: "setStorageWithExpiry P key data hours w2 = Inr w3"
    using assms(3,4) by (simp add: setStorageWithExpiry_def setItem_def Let_def)
  have "getOrFetch P key fetchFunction hours w = (Fulfilled data, 1, w3)"
    using getOrFetch_miss [OF g, of fetchFunction hours] assms(2) s by simp
  moreover have "getStorageWithExpiry P key (w3\<lparr>clock := t\<rparr>) = (Inr data, w3\<lparr>clock := t\<rparr>)"
    using s assms(3,5,6) by (rule get_after_set_live)
  ultimately show ?thesis by simp
qed

text \<open>
  C5, the amended statement at clock 10 with a fetch that takes 40 milliseconds, on a
  store that holds an entry expired at 0, and on an empty store.
\<close>

theorem getOrFetch_miss_fetches_once_and_caches_witness:
  \<open>getItem \<lparr>storage = [''k'' \<mapsto> ''{"value":1,"expiry":0}''], clock = 10\<rparr> ''k'' =
     Some ''{"value":1,"expiry":0}'' \<and>
   JSON_parse ref_platform ''{"value":1,"expiry":0}'' = Inr (make_item (JNum (Fin 1)) (Fin 0)) \<and>
   get_prop (make_item (JNum (Fin 1)) (Fin 0)) ''expiry'' = Inr (JNum (Fin 0)) \<and>
   0 < rat_of_int (clock \<lparr>storage = [''k'' \<mapsto> ''{"value":1,"expiry":0}''], clock = 10\<rparr>) \<and>
   remove_error ref_platform
     (storage \<lparr>storage = [''k'' \<mapsto> ''{"value":1,"expiry":0}''], clock = 10\<rparr>) ''k'' = None \<and>
   resolves_with (JNum (Fin 7)) 40 \<lparr>storage = Map.empty, clock = 10\<rparr> =
     (Fulfilled (JNum (Fin 7)), \<lparr>storage = Map.empty, clock = 50\<rparr>) \<and>
   expiry_of ref_platform \<lparr>storage = Map.empty, clock = 50\<rparr> (Some (Fin 1)) = Fin 3600050 \<and>
   quota_ok ref_platform (storage \<lparr>storage = Map.empty, clock = 50\<rparr>) ''k''
     (JSON_stringify ref_platform (make_item (JNum (Fin 7)) (Fin 3600050))) \<and>
   round_trips ref_platform (make_item (JNum (Fin 7)) (Fin 3600050)) \<and>
   rat_of_int 3600050 \<le> 3600050 \<and>
   getOrFetch ref_platform ''k'' (resolves_with (JNum (Fin 7)) 40) (Some (Fin 1))
       \<lparr>storage = [''k'' \<mapsto> ''{"value":1,"expiry":0}''], clock = 10\<rparr> =
     (Fulfilled (JNum (Fin 7)), 1,
      \<lparr>storage = [''k'' \<mapsto> ''{"value":7,"expiry":3600050}''], clock = 50\<rparr>) \<and>
   getOrFetch ref_platform ''k'' (resolves_with (JNum (Fin 7)) 40) (Some (Fin 1))
       \<lparr>storage = Map.empty, clock = 10\<rparr> =
     (Fulfilled (JNum (Fin 7)), 1,
      \<lparr>storage = [''k'' \<mapsto> ''{"value":7,"expiry":3600050}''], clock = 50\<rparr>) \<and>
   getStorageWithExpiry ref_platform ''k''
       \<lparr>storage = [''k'' \<mapsto> ''{"value":7,"expiry":3600050}''], clock = 3600050\<rparr> =
     (Inr (JNum (Fin 7)),
      \<lparr>storage = [''k'' \<mapsto> ''{"value":7,"expiry":3600050}''], clock = 3600050\<rparr>)\<close>
proof -
  let ?old = \<open>''{"value":1,"expiry":0}''\<close>
  let ?item = "make_item (JNum (Fin 1)) (Fin 0)"
  let ?w = "\<lparr>storage = [''k'' \<mapsto> ?old], clock = 10\<rparr>"
  let ?w' = "\<lparr>storage = Map.empty, clock = 10\<rparr>"
  let ?w2 = "\<lparr>storage = Map.empty, clock = 50\<rparr>"
  let ?f = "resolves_with (JNum (Fin 7)) 40"
  have p: "JSON_parse ref_platform ?old = Inr ?item"
    by (simp add: ref_fields ref_item_D)
  have a: "getItem ?w ''k'' = None \<or>
             (getItem ?w ''k'' = Some ?old \<and> ?old \<noteq> [] \<and>
              JSON_parse ref_platform ?old = Inr ?item \<and>
              get_prop ?item ''expiry'' = Inr (JNum (Fin 0)) \<and> 0 < rat_of_int (clock ?w) \<and>
              remove_error ref_platform (storage ?w) ''k'' = None)"
    using p by (simp add: getItem_def expiry_of_make_item ref_fields)
  have a': "getItem ?w' ''k'' = None \<or>
             (getItem ?w' ''k'' = Some ?old \<and> ?old \<noteq> [] \<and>
              JSON_parse ref_platform ?old = Inr ?item \<and>
              get_prop ?item ''expiry'' = Inr (JNum (Fin 0)) \<and> 0 < rat_of_int (clock ?w') \<and>
              remove_error ref_platform (storage ?w') ''k'' = None)"
    by (simp add: getItem_def)
  have b: "?f (if getItem ?w ''k'' = None then ?w else removed ''k'' ?w) =
             (Fulfilled (JNum (Fin 7)), ?w2)"
    by (simp add: getItem_def removed_def resolves_with_def)
  have b': "?f (if getItem ?w' ''k'' = None then ?w' else removed ''k'' ?w') =
             (Fulfilled (JNum (Fin 7)), ?w2)"
    by (simp add: getItem_def resolves_with_def)
  have x: "expiry_of ref_platform ?w2 (Some (Fin 1)) = Fin 3600050"
    by (simp add: ref_expiry)
  have c: "quota_ok ref_platform (storage ?w2) ''k''
             (JSON_stringify ref_platform (make_item (JNum (Fin 7)) (Fin 3600050)))"
    by (simp add: ref_fields)
  have d: "round_trips ref_platform (make_item (JNum (Fin 7)) (Fin 3600050))"
    by (simp add: ref_run ref_item_G)
  have e: "rat_of_int 3600050 \<le> 3600050"
    by simp
  have s: \<open>setStorageWithExpiry ref_platform ''k'' (JNum (Fin 7)) (Some (Fin 1)) ?w2 =
     Inr \<lparr>storage = [''k'' \<mapsto> ''{"value":7,"expiry":3600050}''], clock = 50\<rparr>\<close>
    by (simp add: ref_run ref_item_G)
  have g: "getStorageWithExpiry ref_platform ''k'' ?w = (Inr JNull, ?w')"
    using get_expired [where w = ?w and key = "''k''" and P = ref_platform
        and item = ?item and e = 0] p
    by (simp add: ref_run)
  have r: \<open>getOrFetch ref_platform ''k'' ?f (Some (Fin 1)) ?w =
     (Fulfilled (JNum (Fin 7)), 1,
      \<lparr>storage = [''k'' \<mapsto> ''{"value":7,"expiry":3600050}''], clock = 50\<rparr>)\<close>
    using getOrFetch_miss [OF g, of ?f "Some (Fin 1)"] s
    by (simp add: resolves_with_def)
  have r': \<open>getOrFetch ref_platform ''k'' ?f (Some (Fin 1)) ?w' =
     (Fulfilled (JNum (Fin 7)), 1,
      \<lparr>storage = [''k'' \<mapsto> ''{"value":7,"expiry":3600050}''], clock = 50\<rparr>)\<close>
    using getOrFetch_miss [OF get_absent, of ?w' "''k''" ref_platform ?f "Some (Fin 1)"] s
    by (simp add: getItem_def resolves_with_def)
  show ?thesis
    using p x c d r r'
      getOrFetch_miss_fetches_once_and_caches [where fetchFunction = ?f and w = ?w,
        OF a b x c d e]
      getOrFetch_miss_fetches_once_and_caches [where fetchFunction = ?f and w = ?w',
        OF a' b' x c d e]
    by (simp add: getItem_def expiry_of_make_item resolves_with_def ref_fields)
qed

text \<open>
  C5 as stated fails: on an empty store that refuses the write, the fetch is called
  once and fulfils with \<^verbatim>\<open>42\<close>, but \<^verbatim>\<open>getOrFetch\<close> rejects with the
  QuotaExceededError, and the read that follows returns \<^verbatim>\<open>null\<close>.
\<close>

theorem refused_write_not_cached_counterexample:
  "getItem \<lparr>storage = Map.empty, clock = 0\<rparr> ''profile'' = None \<and>
   resolves_with (JNum (Fin 42)) 10 \<lparr>storage = Map.empty, clock = 0\<rparr> =
     (Fulfilled (JNum (Fin 42)), \<lparr>storage = Map.empty, clock = 10\<rparr>) \<and>
   getOrFetch no_quota_platform ''profile'' (resolves_with (JNum (Fin 42)) 10) None
       \<lparr>storage = Map.empty, clock = 0\<rparr> =
     (Rejected QuotaExceededError, 1, \<lparr>storage = Map.empty, clock = 10\<rparr>) \<and>
   getStorageWithExpiry no_quota_platform ''profile'' \<lparr>storage = Map.empty, clock = 10\<rparr> =
     (Inr JNull, \<lparr>storage = Map.empty, clock = 10\<rparr>)"
  using getOrFetch_miss [OF get_absent, of "\<lparr>storage = Map.empty, clock = 0\<rparr>" "''profile''"
      no_quota_platform "resolves_with (JNum (Fin 42)) 10" None]
  by (simp add: getItem_def ref_fields setStorageWithExpiry_def setItem_def Let_def
      resolves_with_def get_absent)

subsection \<open>C6\<close>

text \<open>
  Claim C6: on a key with no entry, when \<^verbatim>\<open>fetchFunction\<close> fails (its promise
  rejects, or it throws), \<^verbatim>\<open>getOrFetch\<close> fails the same way with the same error,
  having called it once and written nothing: the world is the one the fetch left, and
  a read of the key still returns \<^verbatim>\<open>null\<close>.
\<close>

theorem getOrFetch_failed_fetch_leaves_cache:
  assumes "getItem w key = None"
    and "fetchFunction w = (r, w2)"
    and "r = Rejected e \<or> r = Throws e"
    and "storage w2 = storage w"
  shows "getOrFetch P key fetchFunction hours w = (r, 1, w2) \<and>
         getStorageWithExpiry P key w2 = (Inr JNull, w2)"
proof -
  have g: "getStorageWithExpiry P key w = (Inr JNull, w)"
    using assms(1) by (rule get_absent)
  have "getOrFetch P key fetchFunction hours w = (r, 1, w2)"
    using getOrFetch_miss [OF g, of fetchFunction hours] assms(2,3) by auto
  moreover have "getItem w2 key = None"
    using assms(1,4) by (simp add: getItem_def)
  ultimately show ?thesis
    by (simp add: get_absent)
qed

text \<open>C6 with a fetch that rejects with \<^verbatim>\<open>"boom"\<close> after 50 milliseconds.\<close>

theorem getOrFetch_failed_fetch_leaves_cache_witness:
  "getItem \<lparr>storage = Map.empty, clock = 0\<rparr> ''k'' = None \<and>
   (rejects_with (Reason (JStr ''boom'')) 50) \<lparr>storage = Map.empty, clock = 0\<rparr> =
     (Rejected (Reason (JStr ''boom'')), \<lparr>storage = Map.empty, clock = 50\<rparr>) \<and>
   storage \<lparr>storage = Map.empty, clock = 50\<rparr> = storage \<lparr>storage = Map.empty, clock = 0\<rparr> \<and>
   getOrFetch ref_platform ''k'' (rejects_with (Reason (JStr ''boom'')) 50) (Some (Fin 1))
       \<lparr>storage = Map.empty, clock = 0\<rparr> =
     (Rejected (Reason (JStr ''boom'')), 1, \<lparr>storage = Map.empty, clock = 50\<rparr>) \<and>
   getStorageWithExpiry ref_platform ''k'' \<lparr>storage = Map.empty, clock = 50\<rparr> =
     (Inr JNull, \<lparr>storage = Map.empty, clock = 50\<rparr>)"
proof -
  let ?w = "\<lparr>storage = Map.empty, clock = 0\<rparr>"
  let ?w2 = "\<lparr>storage = Map.empty, clock = 50\<rparr>"
  let ?f = "rejects_with (Reason (JStr ''boom'')) 50"
  have a: "getItem ?w ''k'' = None"
    by (simp add: getItem_def)
  have b: "?f ?w = (Rejected (Reason (JStr ''boom'')), ?w2)"
    by (simp add: rejects_with_def)
  have c: "Rejected (Reason (JStr ''boom'')) = Rejected (Reason (JStr ''boom'')) \<or>
           Rejected (Reason (JStr ''boom'')) = Throws (Reason (JStr ''boom''))"
    by simp
  have d: "storage ?w2 = storage ?w"
    by simp
  show ?thesis
    using a b getOrFetch_failed_fetch_leaves_cache [where fetchFunction = ?f and w = ?w,
        OF a b c d, of ref_platform "Some (Fin 1)"]
    by simp
qed

subsection \<open>C7\<close>

text \<open>
  Claim C7 says that when the cache write fails after a successful fetch, the fetched
  value is still returned and the store's failure is not the error of the call. The
  code calls \<^verbatim>\<open>this.set\<close> inside the \<^verbatim>\<open>then\<close> callback with nothing to catch what it
  throws, so the promise rejects with the store's error.

  C7 as amended: on a key with no entry, when \<^verbatim>\<open>fetchFunction\<close> fulfils and the store
  refuses the write, the promise of \<^verbatim>\<open>getOrFetch\<close> rejects with the
  QuotaExceededError of \<^verbatim>\<open>setItem\<close>; the fetched value is not delivered and the store
  is as the fetch left it.
\<close>

theorem getOrFetch_failed_write_rejects:
  assumes "getItem w key = None"
    and "fetchFunction w = (Fulfilled data, w2)"
    and "\<not> quota_ok P (storage w2) key
             (JSON_stringify P (make_item data (expiry_of P w2 hours)))"
  shows "getOrFetch P key fetchFunction hours w = (Rejected QuotaExceededError, 1, w2)"
proof -
  have g: "getStorageWithExpiry P key w = (Inr JNull, w)"
    using assms(1) by (rule get_absent)
  have "setStorageWithExpiry P key data hours w2 = Inl QuotaExceededError"
    using assms(3) by (simp add: setStorageWithExpiry_def setItem_def Let_def)
  then show ?thesis
    using getOrFetch_miss [OF g, of fetchFunction hours] assms(2) by simp
qed

text \<open>C7, the amended statement on a platform whose storage refuses every write.\<close>

theorem getOrFetch_failed_write_rejects_witness:
  "getItem \<lparr>storage = Map.empty, clock = 3\<rparr> ''user-123'' = None \<and>
   (resolves_with (JStr ''x'') 0) \<lparr>storage = Map.empty, clock = 3\<rparr> =
     (Fulfilled (JStr ''x''), \<lparr>storage = Map.empty, clock = 3\<rparr>) \<and>
   \<not> quota_ok no_quota_platform (storage \<lparr>storage = Map.empty, clock = 3\<rparr>) ''user-123''
        (JSON_stringify no_quota_platform
           (make_item (JStr ''x'')
              (expiry_of no_quota_platform \<lparr>storage = Map.empty, clock = 3\<rparr> (Some (Fin 2))))) \<and>
   getOrFetch no_quota_platform ''user-123'' (resolves_with (JStr ''x'') 0) (Some (Fin 2))
       \<lparr>storage = Map.empty, clock = 3\<rparr> =
     (Rejected QuotaExceededError, 1, \<lparr>storage = Map.empty, clock = 3\<rparr>)"
proof -
  let ?w = "\<lparr>storage = Map.empty, clock = 3\<rparr>"
  let ?f = "resolves_with (JStr ''x'') 0"
  have a: "getItem ?w ''user-123'' = None"
    by (simp add: getItem_def)
  have b: "?f ?w = (Fulfilled (JStr ''x''), ?w)"
    by (simp add: resolves_with_def)
  have c: "\<not> quota_ok no_quota_platform (storage ?w) ''user-123''
        (JSON_stringify no_quota_platform
           (make_item (JStr ''x'') (expiry_of no_quota_platform ?w (Some (Fin 2)))))"
    by (simp add: ref_fields)
  show ?thesis
    using a b c getOrFetch_failed_write_rejects [where fetchFunction = ?f and w = ?w, OF a b c]
    by simp
qed

text \<open>
  C7 as stated fails: the fetch fulfils with \<^verbatim>\<open>7\<close>, the store refuses the write, and
  the call rejects with QuotaExceededError instead of fulfilling with \<^verbatim>\<open>7\<close>.
\<close>

theorem failed_write_counterexample:
  "fst (resolves_with (JNum (Fin 7)) 0 \<lparr>storage = Map.empty, clock = 0\<rparr>) =
     Fulfilled (JNum (Fin 7)) \<and>
   getOrFetch no_quota_platform ''k'' (resolves_with (JNum (Fin 7)) 0) None
       \<lparr>storage = Map.empty, clock = 0\<rparr> =
     (Rejected QuotaExceededError, 1, \<lparr>storage = Map.empty, clock = 0\<rparr>)"
  using getOrFetch_miss [OF get_absent, of "\<lparr>storage = Map.empty, clock = 0\<rparr>" "''k''"
      no_quota_platform "resolves_with (JNum (Fin 7)) 0" None]
  by (simp add: getItem_def ref_fields setStorageWithExpiry_def setItem_def
      Let_def resolves_with_def)

subsection \<open>C8\<close>




subsection \<open>C9\<close>

text \<open>
  Claim C9 says that a second \<^verbatim>\<open>set\<close> on a key replaces the entry of the first
  unconditionally, so that \<^verbatim>\<open>get\<close> returns the second value and never the first.
  The second write can fail, and then the entry of the first write stays and is what
  \<^verbatim>\<open>get\<close> returns.

  C9 as amended: after a \<^verbatim>\<open>setStorageWithExpiry(k, v1, hours1)\<close> and then, at clock
  \<open>t2\<close>, a \<^verbatim>\<open>setStorageWithExpiry(k, v2, hours2)\<close> that the store both accepts,
  where the expiry the code computes for the second is a finite number \<open>e2\<close> and the
  item \<^verbatim>\<open>{value: v2, expiry: e2}\<close> is one that JSON gives back, the store holds under
  \<open>k\<close> the one entry of the second write and nothing of the first, whatever \<open>v1\<close>
  and \<open>hours1\<close> were; \<^verbatim>\<open>getStorageWithExpiry\<close> returns \<open>v2\<close> at every clock up to
  \<open>e2\<close>, and after it finds the entry expired: it removes it and returns
  \<^verbatim>\<open>null\<close>, or throws what the removal throws.
\<close>

theorem overwrite_last_write_wins:
  assumes "setStorageWithExpiry P key v1 h1 w = Inr w1"
    and "setStorageWithExpiry P key v2 h2 (w1\<lparr>clock := t2\<rparr>) = Inr w2"
    and "expiry_of P (w1\<lparr>clock := t2\<rparr>) h2 = Fin e2"
    and "round_trips P (make_item v2 (Fin e2))"
  shows "storage w2 = (storage w)(key \<mapsto> JSON_stringify P (make_item v2 (Fin e2))) \<and>
         getStorageWithExpiry P key (w2\<lparr>clock := t3\<rparr>) =
           (if of_int t3 \<le> e2 then (Inr v2, w2\<lparr>clock := t3\<rparr>)
            else (case remove_error P (storage w2) key of
                    None \<Rightarrow> (Inr JNull, removed key (w2\<lparr>clock := t3\<rparr>))
                  | Some err \<Rightarrow> (Inl err, w2\<lparr>clock := t3\<rparr>)))"
proof -
  have "storage w2 = (storage w)(key \<mapsto> JSON_stringify P (make_item v2 (Fin e2)))"
    using set_ok [OF assms(1)] set_ok [OF assms(2)] assms(3) by simp
  moreover have "getStorageWithExpiry P key (w2\<lparr>clock := t3\<rparr>) = (Inr v2, w2\<lparr>clock := t3\<rparr>)"
    if "of_int t3 \<le> e2"
    using assms(2,3,4) that by (rule get_after_set_live)
  moreover have "getStorageWithExpiry P key (w2\<lparr>clock := t3\<rparr>) =
           (case remove_error P (storage w2) key of
              None \<Rightarrow> (Inr JNull, removed key (w2\<lparr>clock := t3\<rparr>))
            | Some err \<Rightarrow> (Inl err, w2\<lparr>clock := t3\<rparr>))"
    if "\<not> of_int t3 \<le> e2"
    using get_after_set_expired [OF assms(2,3) round_trips_keeps_expiry [OF assms(4)], of t3] that
    by simp
  ultimately show ?thesis by simp
qed

text \<open>
  C9, the amended statement with one hour for the first write and two hours for the
  second: a read after the first hour returns the second value, a read after the second
  expiry returns \<^verbatim>\<open>null\<close>.
\<close>

theorem overwrite_last_write_wins_witness:
  \<open>setStorageWithExpiry ref_platform ''k'' (JNum (Fin 1)) (Some (Fin 1))
       \<lparr>storage = Map.empty, clock = 0\<rparr> =
     Inr \<lparr>storage = [''k'' \<mapsto> ''{"value":1,"expiry":3600000}''], clock = 0\<rparr> \<and>
   setStorageWithExpiry ref_platform ''k'' (JNum (Fin 2)) (Some (Fin 2))
       \<lparr>storage = [''k'' \<mapsto> ''{"value":1,"expiry":3600000}''], clock = 10\<rparr> =
     Inr \<lparr>storage = [''k'' \<mapsto> ''{"value":2,"expiry":7200010}''], clock = 10\<rparr> \<and>
   expiry_of ref_platform
     \<lparr>storage = [''k'' \<mapsto> ''{"value":1,"expiry":3600000}''], clock = 10\<rparr> (Some (Fin 2)) =
     Fin 7200010 \<and>
   round_trips ref_platform (make_item (JNum (Fin 2)) (Fin 7200010)) \<and>
   getStorageWithExpiry ref_platform ''k''
       \<lparr>storage = [''k'' \<mapsto> ''{"value":2,"expiry":7200010}''], clock = 3600001\<rparr> =
     (Inr (JNum (Fin 2)),
      \<lparr>storage = [''k'' \<mapsto> ''{"value":2,"expiry":7200010}''], clock = 3600001\<rparr>) \<and>
   getStorageWithExpiry ref_platform ''k''
       \<lparr>storage = [''k'' \<mapsto> ''{"value":2,"expiry":7200010}''], clock = 7200011\<rparr> =
     (Inr JNull, \<lparr>storage = Map.empty, clock = 7200011\<rparr>)\<close>
proof -
  let ?w = "\<lparr>storage = Map.empty, clock = 0\<rparr>"
  let ?w1 = \<open>\<lparr>storage = [''k'' \<mapsto> ''{"value":1,"expiry":3600000}''], clock = 0\<rparr>\<close>
  let ?w2 = \<open>\<lparr>storage = [''k'' \<mapsto> ''{"value":2,"expiry":7200010}''], clock = 10\<rparr>\<close>
  have a: "setStorageWithExpiry ref_platform ''k'' (JNum (Fin 1)) (Some (Fin 1)) ?w = Inr ?w1"
    by (simp add: ref_run ref_item_A)
  have b: "setStorageWithExpiry ref_platform ''k'' (JNum (Fin 2)) (Some (Fin 2))
             (?w1\<lparr>clock := 10\<rparr>) = Inr ?w2"
    by (simp add: ref_run ref_item_E)
  have c: "expiry_of ref_platform (?w1\<lparr>clock := 10\<rparr>) (Some (Fin 2)) = Fin 7200010"
    by (simp add: ref_expiry)
  have d: "round_trips ref_platform (make_item (JNum (Fin 2)) (Fin 7200010))"
    by (simp add: ref_run ref_item_E)
  show ?thesis
    using a b c d overwrite_last_write_wins [OF a b c d, of 3600001]
      overwrite_last_write_wins [OF a b c d, of 7200011]
    by (simp add: removed_def ref_fields ref_item_E)
qed

text \<open>
  C9 as stated fails: on a store with room for 29 characters the first write, of
  \<^verbatim>\<open>1\<close>, is accepted and the second, of \<^verbatim>\<open>22\<close>, is refused with a
  QuotaExceededError; the read that follows returns the first value.
\<close>

theorem refused_overwrite_counterexample:
  \<open>setStorageWithExpiry (limited_platform 29) ''k'' (JNum (Fin 1)) (Some (Fin 1))
       \<lparr>storage = Map.empty, clock = 0\<rparr> =
     Inr \<lparr>storage = [''k'' \<mapsto> ''{"value":1,"expiry":3600000}''], clock = 0\<rparr> \<and>
   setStorageWithExpiry (limited_platform 29) ''k'' (JNum (Fin 22)) (Some (Fin 2))
       \<lparr>storage = [''k'' \<mapsto> ''{"value":1,"expiry":3600000}''], clock = 10\<rparr> =
     Inl QuotaExceededError \<and>
   getStorageWithExpiry (limited_platform 29) ''k''
       \<lparr>storage = [''k'' \<mapsto> ''{"value":1,"expiry":3600000}''], clock = 10\<rparr> =
     (Inr (JNum (Fin 1)),
      \<lparr>storage = [''k'' \<mapsto> ''{"value":1,"expiry":3600000}''], clock = 10\<rparr>)\<close>
proof -
  let ?w1 = \<open>\<lparr>storage = [''k'' \<mapsto> ''{"value":1,"expiry":3600000}''], clock = 10\<rparr>\<close>
  have a: \<open>setStorageWithExpiry (limited_platform 29) ''k'' (JNum (Fin 1)) (Some (Fin 1))
       \<lparr>storage = Map.empty, clock = 0\<rparr> =
     Inr \<lparr>storage = [''k'' \<mapsto> ''{"value":1,"expiry":3600000}''], clock = 0\<rparr>\<close>
    by (simp add: ref_run ref_item_A)
  have b: "setStorageWithExpiry (limited_platform 29) ''k'' (JNum (Fin 22)) (Some (Fin 2)) ?w1 =
     Inl QuotaExceededError"
    by (simp add: ref_run ref_item_J)
  have "getStorageWithExpiry (limited_platform 29) ''k'' ?w1 = (Inr (JNum (Fin 1)), ?w1)"
    using get_live [where w = ?w1 and key = "''k''" and P = "limited_platform 29"
        and item = "make_item (JNum (Fin 1)) (Fin 3600000)" and e = 3600000]
    by (simp add: ref_run ref_item_A)
  then show ?thesis
    using a b by simp
qed

subsection \<open>C10\<close>

text \<open>
  Claim C10: \<^verbatim>\<open>safeJsonParse\<close> never throws; it returns what \<^verbatim>\<open>JSON.parse\<close>
  returns when that succeeds, and otherwise the fallback, which is the empty object
  when the argument is left out (\<^verbatim>\<open>undefined\<close>).
\<close>

theorem safeJsonParse_never_throws:
  "safeJsonParse P str fallback =
     Inr (case JSON_parse P str of
            Inr v \<Rightarrow> v
          | Inl e \<Rightarrow> if fallback = JUndefined then JObj [] else fallback)"
proof (cases "JSON_parse P str")
  case (Inl e)
  then show ?thesis
    by (simp add: safeJsonParse_def)
next
  case (Inr v)
  then show ?thesis
    by (simp add: safeJsonParse_def)
qed

end
